theory Spec2Isabelle
  imports Complex_Main
begin

section \<open>The audio graph and the routing engine of audioContext.ts\<close>

text \<open>
  The module keeps four variables: the lazily created \<^verbatim>\<open>audioContext\<close>, the lazily
  created \<^verbatim>\<open>stereoPannerNode\<close>, \<^verbatim>\<open>currentAudioMode\<close> and the set
  \<^verbatim>\<open>connectedSources\<close>. Its functions call the Web Audio platform: they create the
  context and the panner, connect and disconnect nodes, and write the panner's \<^verbatim>\<open>pan\<close>
  parameter. Every one of these calls may throw, and the module wraps each in
  \<^verbatim>\<open>try/catch\<close>. The model therefore carries

  \<^item> the nodes of the graph: the sources handed in by callers (opaque references, numbered),
    the module's one panner and the one destination of the module's context;
  \<^item> the graph itself, as the set of nodes each node's output is connected to
    (\<^verbatim>\<open>a.connect(b)\<close> adds \<open>b\<close>, a connection made twice is one connection,
    \<^verbatim>\<open>a.disconnect()\<close> removes all of them);
  \<^item> the platform as a parameter that says which calls throw;
  \<^item> the logger as the list of records written so far, one constructor per call site of
    the source;
  \<^item> JavaScript numbers as \<^typ>\<open>real\<close>.

  A function of the source that may throw returns the error or the value together with the
  state as the throw left it, since assignments made before a throw stay.
\<close>

datatype node = Source nat | Panner | Destination

datatype error =
    AudioInitError
  | PannerCreateError
  | ConnectionError node node
  | DisconnectionError node
  | ParamError real

datatype level = Debug | Info | Warn | Error

datatype message =
    ContextCreated
  | ContextCreateFailed error
  | PannerCreated real
  | PannerCreateFailed error
  | PanValueSet real "real option"
  | PanValueFailed error
  | RoutedThroughPanner real
  | PannerRoutingFailed error
  | PannerDisconnected
  | PannerDisconnectFailed error
  | ModeChanging string string
  | ModeChanged string
  | ModeChangeFailed error
  | RoutedDirectly
  | SourceConnectFailed error
  | SourceDisconnectFailed error
  | SourceReconnectFailed error
  | SoundOptionChanging string string
  | SoundOptionActivated string
  | SoundOptionUnknown string
  | SoundOptionFailed error

text \<open>The panner's \<^verbatim>\<open>pan\<close> parameter: its current value and the values scheduled with
  \<^verbatim>\<open>setValueAtTime\<close>, each with its time.\<close>

record panner =
  pan :: real
  scheduled :: "(real \<times> real) list"

record engine =
  audioContext :: bool
  stereoPannerNode :: "panner option"
  currentAudioMode :: string
  connectedSources :: "nat list"
  outputs :: "node \<Rightarrow> node set"
  logged :: "(level \<times> message) list"

text \<open>Which platform calls throw: \<^verbatim>\<open>new AudioContext()\<close>,
  \<^verbatim>\<open>context.createStereoPanner()\<close>, \<^verbatim>\<open>a.connect(b)\<close>, \<^verbatim>\<open>a.disconnect()\<close> and
  \<^verbatim>\<open>pan.setValueAtTime(v, when)\<close> for the time \<open>when\<close>.\<close>

record platform =
  context_fails :: bool
  panner_fails :: bool
  connect_fails :: "node \<Rightarrow> node \<Rightarrow> bool"
  disconnect_fails :: "node \<Rightarrow> bool"
  schedule_fails :: "real \<Rightarrow> bool"

type_synonym 'a res = "(error + 'a) \<times> engine"

definition init_engine :: engine where
  "init_engine =
     \<lparr>audioContext = False, stereoPannerNode = None, currentAudioMode = ''default'',
      connectedSources = [], outputs = (\<lambda>_. {}), logged = []\<rparr>"

definition ok_platform :: platform where
  "ok_platform =
     \<lparr>context_fails = False, panner_fails = False, connect_fails = (\<lambda>_ _. False),
      disconnect_fails = (\<lambda>_. False), schedule_fails = (\<lambda>_. False)\<rparr>"

subsection \<open>Primitive effects\<close>

definition say :: "level \<Rightarrow> message \<Rightarrow> engine \<Rightarrow> engine" where
  "say l m s = s\<lparr>logged := logged s @ [(l, m)]\<rparr>"

definition connect :: "node \<Rightarrow> node \<Rightarrow> engine \<Rightarrow> engine" where
  "connect a b s = s\<lparr>outputs := (outputs s)(a := insert b (outputs s a))\<rparr>"

definition disconnect :: "node \<Rightarrow> engine \<Rightarrow> engine" where
  "disconnect a s = s\<lparr>outputs := (outputs s)(a := {})\<rparr>"

text \<open>\<^verbatim>\<open>connectedSources.add(x)\<close>: a JavaScript \<^verbatim>\<open>Set\<close> keeps insertion order and
  ignores an element it already has.\<close>

definition add_source :: "nat \<Rightarrow> engine \<Rightarrow> engine" where
  "add_source x s =
     (if x \<in> set (connectedSources s) then s
      else s\<lparr>connectedSources := connectedSources s @ [x]\<rparr>)"

definition clamp :: "real \<Rightarrow> real" where
  "clamp v = max (- 1) (min 1 v)"

subsection \<open>The functions of the module\<close>

definition getAudioContext :: "platform \<Rightarrow> engine \<Rightarrow> unit res" where
  "getAudioContext pf s =
     (if audioContext s then (Inr (), s)
      else if context_fails pf
        then (Inl AudioInitError, say Error (ContextCreateFailed AudioInitError) s)
      else (Inr (), say Info ContextCreated (s\<lparr>audioContext := True\<rparr>)))"

definition getStereoPannerNode :: "platform \<Rightarrow> real \<Rightarrow> engine \<Rightarrow> unit res" where
  "getStereoPannerNode pf panValue s =
     (case getAudioContext pf s of
        (Inl e, s1) \<Rightarrow> (Inl e, s1)
      | (Inr _, s1) \<Rightarrow>
          (case stereoPannerNode s1 of
             Some _ \<Rightarrow> (Inr (), s1)
           | None \<Rightarrow>
               if panner_fails pf
                 then (Inl PannerCreateError, say Error (PannerCreateFailed PannerCreateError) s1)
               else (Inr (),
                     say Info (PannerCreated (clamp panValue))
                       (s1\<lparr>stereoPannerNode :=
                             Some \<lparr>pan = clamp panValue, scheduled = []\<rparr>\<rparr>))))"

definition getCurrentPanValue :: "engine \<Rightarrow> real" where
  "getCurrentPanValue s = (case stereoPannerNode s of Some p \<Rightarrow> pan p | None \<Rightarrow> 0)"

text \<open>The time in the debug record of \<^verbatim>\<open>setPanValue\<close>, \<^verbatim>\<open>when || 'sofort'\<close>: a time that
  is missing or 0 is logged as \<^verbatim>\<open>sofort\<close>, here \<open>None\<close>.\<close>

definition logged_when :: "real option \<Rightarrow> real option" where
  "logged_when when = (case when of Some t \<Rightarrow> if t = 0 then None else Some t | None \<Rightarrow> None)"

definition setPanValue :: "platform \<Rightarrow> real \<Rightarrow> real option \<Rightarrow> engine \<Rightarrow> unit res" where
  "setPanValue pf panValue when s =
     (case getStereoPannerNode pf 0 s of
        (Inl e, s1) \<Rightarrow> (Inl e, s1)
      | (Inr _, s1) \<Rightarrow>
          (let clampedPanValue = clamp panValue in
           case when of
             Some t \<Rightarrow>
               if schedule_fails pf t
                 then (Inl (ParamError t), say Error (PanValueFailed (ParamError t)) s1)
               else (Inr (),
                     say Debug (PanValueSet clampedPanValue (logged_when when))
                       (s1\<lparr>stereoPannerNode :=
                             map_option
                               (\<lambda>p. p\<lparr>scheduled := scheduled p @ [(clampedPanValue, t)]\<rparr>)
                               (stereoPannerNode s1)\<rparr>))
           | None \<Rightarrow>
               (Inr (),
                say Debug (PanValueSet clampedPanValue (logged_when when))
                  (s1\<lparr>stereoPannerNode :=
                        map_option (\<lambda>p. p\<lparr>pan := clampedPanValue\<rparr>) (stereoPannerNode s1)\<rparr>))))"

definition connectAudioThroughStereoPanner :: "platform \<Rightarrow> nat \<Rightarrow> real \<Rightarrow> engine \<Rightarrow> unit res" where
  "connectAudioThroughStereoPanner pf sourceNode panValue s =
     (case getAudioContext pf s of
        (Inl e, s1) \<Rightarrow> (Inl e, s1)
      | (Inr _, s1) \<Rightarrow>
          (case getStereoPannerNode pf panValue s1 of
             (Inl e, s2) \<Rightarrow> (Inl e, s2)
           | (Inr _, s2) \<Rightarrow>
               if connect_fails pf (Source sourceNode) Panner
                 then (Inl (ConnectionError (Source sourceNode) Panner),
                       say Error (PannerRoutingFailed (ConnectionError (Source sourceNode) Panner)) s2)
               else
                 (let s3 = connect (Source sourceNode) Panner s2 in
                  if connect_fails pf Panner Destination
                    then (Inl (ConnectionError Panner Destination),
                          say Error (PannerRoutingFailed (ConnectionError Panner Destination)) s3)
                  else
                    (let s4 = connect Panner Destination s3;
                         s5 = add_source sourceNode s4
                     in (Inr (), say Info (RoutedThroughPanner (getCurrentPanValue s5)) s5)))))"

definition disconnectStereoPanner :: "platform \<Rightarrow> engine \<Rightarrow> engine" where
  "disconnectStereoPanner pf s =
     (case stereoPannerNode s of
        None \<Rightarrow> s
      | Some _ \<Rightarrow>
          if disconnect_fails pf Panner
            then say Error (PannerDisconnectFailed (DisconnectionError Panner)) s
          else say Info PannerDisconnected (disconnect Panner s))"

definition getCurrentAudioMode :: "engine \<Rightarrow> string" where
  "getCurrentAudioMode s = currentAudioMode s"

text \<open>The body of the \<^verbatim>\<open>forEach\<close> of \<^verbatim>\<open>_disconnectAllSources\<close>.\<close>

definition disconnect_source :: "platform \<Rightarrow> nat \<Rightarrow> engine \<Rightarrow> engine" where
  "disconnect_source pf source s =
     (if disconnect_fails pf (Source source)
        then say Warn (SourceDisconnectFailed (DisconnectionError (Source source))) s
      else disconnect (Source source) s)"

definition disconnectAllSources :: "platform \<Rightarrow> engine \<Rightarrow> engine" where
  "disconnectAllSources pf s =
     disconnectStereoPanner pf (fold (disconnect_source pf) (connectedSources s) s)"

text \<open>The body of the \<^verbatim>\<open>forEach\<close> of \<^verbatim>\<open>_reconnectSourcesWithMode\<close>: the
  \<^verbatim>\<open>switch\<close> on the mode inside a \<^verbatim>\<open>try\<close> whose \<^verbatim>\<open>catch\<close> logs a warning.\<close>

definition reconnect_source :: "platform \<Rightarrow> string \<Rightarrow> nat \<Rightarrow> engine \<Rightarrow> engine" where
  "reconnect_source pf mode source s =
     (if mode = ''stereopanner'' then
        (case connectAudioThroughStereoPanner pf source 0 s of
           (Inl e, s1) \<Rightarrow> say Warn (SourceReconnectFailed e) s1
         | (Inr _, s1) \<Rightarrow> s1)
      else if connect_fails pf (Source source) Destination
        then say Warn (SourceReconnectFailed (ConnectionError (Source source) Destination)) s
      else connect (Source source) Destination s)"

definition reconnectSourcesWithMode :: "platform \<Rightarrow> string \<Rightarrow> engine \<Rightarrow> unit res" where
  "reconnectSourcesWithMode pf mode s =
     (case getAudioContext pf s of
        (Inl e, s1) \<Rightarrow> (Inl e, s1)
      | (Inr _, s1) \<Rightarrow> (Inr (), fold (reconnect_source pf mode) (connectedSources s1) s1))"

definition setAudioMode :: "platform \<Rightarrow> string \<Rightarrow> engine \<Rightarrow> unit res" where
  "setAudioMode pf mode s =
     (let s0 = say Info (ModeChanging (currentAudioMode s) mode) s;
          s1 = disconnectAllSources pf s0;
          s2 = s1\<lparr>currentAudioMode := mode\<rparr>
      in case reconnectSourcesWithMode pf mode s2 of
           (Inl e, s3) \<Rightarrow> (Inl e, say Error (ModeChangeFailed e) s3)
         | (Inr _, s3) \<Rightarrow> (Inr (), say Info (ModeChanged mode) s3))"

definition connectAudioSource :: "platform \<Rightarrow> nat \<Rightarrow> engine \<Rightarrow> unit res" where
  "connectAudioSource pf sourceNode s =
     (case getAudioContext pf s of
        (Inl e, s1) \<Rightarrow> (Inl e, s1)
      | (Inr _, s1) \<Rightarrow>
          (let s2 = add_source sourceNode s1 in
           if currentAudioMode s2 = ''stereopanner'' then
             (case connectAudioThroughStereoPanner pf sourceNode 0 s2 of
                (Inl e, s3) \<Rightarrow> (Inl e, say Error (SourceConnectFailed e) s3)
              | (Inr _, s3) \<Rightarrow> (Inr (), s3))
           else if connect_fails pf (Source sourceNode) Destination
             then (Inl (ConnectionError (Source sourceNode) Destination),
                   say Error (SourceConnectFailed (ConnectionError (Source sourceNode) Destination)) s2)
           else (Inr (), say Info RoutedDirectly (connect (Source sourceNode) Destination s2))))"

text \<open>\<^verbatim>\<open>_handleSoundOptionChange\<close> of the toolbox middleware, the caller of
  \<^verbatim>\<open>setAudioMode\<close>: it catches whatever \<^verbatim>\<open>setAudioMode\<close> throws, and its own
  \<^verbatim>\<open>switch\<close> warns about an option it does not know.\<close>

definition handleSoundOptionChange :: "platform \<Rightarrow> string \<Rightarrow> engine \<Rightarrow> unit res" where
  "handleSoundOptionChange pf soundOption s =
     (let s0 = say Info (SoundOptionChanging (getCurrentAudioMode s) soundOption) s in
      case setAudioMode pf soundOption s0 of
        (Inl e, s1) \<Rightarrow> (Inr (), say Error (SoundOptionFailed e) s1)
      | (Inr _, s1) \<Rightarrow>
          (Inr (),
           if soundOption = ''default'' \<or> soundOption = ''stereopanner''
              \<or> soundOption = ''equalpower'' \<or> soundOption = ''hrtf''
             then say Info (SoundOptionActivated soundOption) s1
           else say Warn (SoundOptionUnknown soundOption) s1))"

subsection \<open>Notions used to state the properties\<close>

text \<open>The context, or the panner, is there or can be created.\<close>

definition context_available :: "platform \<Rightarrow> engine \<Rightarrow> bool" where
  "context_available pf s = (audioContext s \<or> \<not> context_fails pf)"

definition panner_available :: "platform \<Rightarrow> engine \<Rightarrow> bool" where
  "panner_available pf s = (stereoPannerNode s \<noteq> None \<or> \<not> panner_fails pf)"

text \<open>The connections that the wiring step of mode \<open>mode\<close> makes for the source \<open>x\<close>,
  as outputs of the node \<open>n\<close>, on a platform where the panner is available or not: in
  mode \<^verbatim>\<open>stereopanner\<close> the source goes to the panner and then the panner to the
  destination, each unless the call throws; in every other mode the source goes to the
  destination.\<close>

definition wire_edges :: "platform \<Rightarrow> string \<Rightarrow> bool \<Rightarrow> nat \<Rightarrow> node \<Rightarrow> node set" where
  "wire_edges pf mode avail x n =
     (if mode = ''stereopanner'' then
        (if avail \<and> \<not> connect_fails pf (Source x) Panner then
           (if n = Source x then {Panner}
            else if n = Panner \<and> \<not> connect_fails pf Panner Destination then {Destination}
            else {})
         else {})
      else (if n = Source x \<and> \<not> connect_fails pf (Source x) Destination
            then {Destination} else {}))"

text \<open>The wiring step of mode \<open>mode\<close> throws for the source \<open>x\<close>.\<close>

definition rewire_fails :: "platform \<Rightarrow> string \<Rightarrow> bool \<Rightarrow> nat \<Rightarrow> bool" where
  "rewire_fails pf mode avail x =
     (if mode = ''stereopanner''
        then \<not> avail \<or> connect_fails pf (Source x) Panner \<or> connect_fails pf Panner Destination
      else connect_fails pf (Source x) Destination)"

text \<open>The warnings of the two loops of a mode change, counted in the log.\<close>

fun is_reconnect_warning :: "level \<times> message \<Rightarrow> bool" where
  "is_reconnect_warning (Warn, SourceReconnectFailed e) = True"
| "is_reconnect_warning _ = False"

fun is_disconnect_warning :: "level \<times> message \<Rightarrow> bool" where
  "is_disconnect_warning (Warn, SourceDisconnectFailed e) = True"
| "is_disconnect_warning _ = False"

definition reconnect_warnings :: "engine \<Rightarrow> nat" where
  "reconnect_warnings s = length (filter is_reconnect_warning (logged s))"

definition disconnect_warnings :: "engine \<Rightarrow> nat" where
  "disconnect_warnings s = length (filter is_disconnect_warning (logged s))"

text \<open>The disconnection phase of a mode change calls \<^verbatim>\<open>disconnect()\<close> on the node
  \<open>n\<close>, and the call does not throw.\<close>

definition clearable :: "platform \<Rightarrow> engine \<Rightarrow> node \<Rightarrow> bool" where
  "clearable pf s n =
     ((case n of
         Source x \<Rightarrow> x \<in> set (connectedSources s)
       | Panner \<Rightarrow> stereoPannerNode s \<noteq> None
       | Destination \<Rightarrow> False)
      \<and> \<not> disconnect_fails pf n)"

text \<open>The values scheduled on the panner's \<^verbatim>\<open>pan\<close> parameter, none while there is no
  panner.\<close>

definition scheduledPanValues :: "engine \<Rightarrow> (real \<times> real) list" where
  "scheduledPanValues s = (case stereoPannerNode s of Some p \<Rightarrow> scheduled p | None \<Rightarrow> [])"

subsection \<open>Sequences of calls\<close>

text \<open>The calls that change the state, as data, so that a state reached by calling the
  module can be written down. The two getters change nothing and are left out. A call
  that throws leaves the state it had reached, and the next call starts from there.\<close>

datatype call =
    GetAudioContext
  | GetStereoPannerNode real
  | SetPanValue real "real option"
  | ConnectAudioThroughStereoPanner nat real
  | DisconnectStereoPanner
  | SetAudioMode string
  | ConnectAudioSource nat
  | HandleSoundOptionChange string

fun exec :: "platform \<Rightarrow> call \<Rightarrow> engine \<Rightarrow> engine" where
  "exec pf GetAudioContext s = snd (getAudioContext pf s)"
| "exec pf (GetStereoPannerNode v) s = snd (getStereoPannerNode pf v s)"
| "exec pf (SetPanValue v when) s = snd (setPanValue pf v when s)"
| "exec pf (ConnectAudioThroughStereoPanner x v) s = snd (connectAudioThroughStereoPanner pf x v s)"
| "exec pf DisconnectStereoPanner s = disconnectStereoPanner pf s"
| "exec pf (SetAudioMode m) s = snd (setAudioMode pf m s)"
| "exec pf (ConnectAudioSource x) s = snd (connectAudioSource pf x s)"
| "exec pf (HandleSoundOptionChange m) s = snd (handleSoundOptionChange pf m s)"

definition run :: "platform \<Rightarrow> call list \<Rightarrow> engine \<Rightarrow> engine" where
  "run pf cs s = fold (exec pf) cs s"

text \<open>The calls that set the mode.\<close>

fun sets_mode :: "call \<Rightarrow> bool" where
  "sets_mode (SetAudioMode m) = True"
| "sets_mode (HandleSoundOptionChange m) = True"
| "sets_mode _ = False"

text \<open>The calls that go through the routing engine: all but the two exported helpers that
  connect a source to the panner, or disconnect the panner, whatever the mode is.\<close>

fun engine_call :: "call \<Rightarrow> bool" where
  "engine_call (ConnectAudioThroughStereoPanner x v) = False"
| "engine_call DisconnectStereoPanner = False"
| "engine_call _ = True"

text \<open>The source \<open>x\<close> is wired by the rule of the mode, and by it alone: in mode
  \<^verbatim>\<open>stereopanner\<close> its one connection goes to the panner, which goes to the destination;
  in every other mode its one connection goes to the destination.\<close>

definition wired_as :: "string \<Rightarrow> engine \<Rightarrow> nat \<Rightarrow> bool" where
  "wired_as mode s x =
     (if mode = ''stereopanner''
        then outputs s (Source x) = {Panner} \<and> Destination \<in> outputs s Panner
      else outputs s (Source x) = {Destination})"

text \<open>The connections of the rule are there, whatever else is.\<close>

definition reaches_output :: "string \<Rightarrow> engine \<Rightarrow> nat \<Rightarrow> bool" where
  "reaches_output mode s x =
     (if mode = ''stereopanner''
        then Panner \<in> outputs s (Source x) \<and> Destination \<in> outputs s Panner
      else Destination \<in> outputs s (Source x))"

fun is_warning :: "level \<times> message \<Rightarrow> bool" where
  "is_warning (Warn, m) = True"
| "is_warning _ = False"

definition warnings :: "engine \<Rightarrow> (level \<times> message) list" where
  "warnings s = filter is_warning (logged s)"

text \<open>The connections that the rule of the current mode asks for, over all tracked sources,
  as outputs of the node \<open>n\<close>.\<close>

definition rule_edges :: "platform \<Rightarrow> engine \<Rightarrow> node \<Rightarrow> node set" where
  "rule_edges pf s n =
     (\<Union>x\<in>set (connectedSources s).
        wire_edges pf (currentAudioMode s) (panner_available pf s) x n)"

text \<open>The graph is the one the engine itself builds: nothing is tracked and no panner
  exists before the context does, a panner that does not exist and a source that is not
  tracked have no connections, the connections of the current mode's rule are there, and
  a node that a mode change can clear has no others.\<close>

definition consistent :: "platform \<Rightarrow> engine \<Rightarrow> bool" where
  "consistent pf s \<longleftrightarrow>
     (\<not> audioContext s \<longrightarrow> connectedSources s = [] \<and> stereoPannerNode s = None)
     \<and> (stereoPannerNode s = None \<longrightarrow> outputs s Panner = {})
     \<and> (\<forall>x. x \<notin> set (connectedSources s) \<longrightarrow> outputs s (Source x) = {})
     \<and> (\<forall>n. rule_edges pf s n \<subseteq> outputs s n)
     \<and> (\<forall>n. clearable pf s n \<longrightarrow> outputs s n \<subseteq> rule_edges pf s n)"

text \<open>The warn-level records that neither loop of a mode change writes, and a record that
  is not one of them.\<close>

definition loop_or_no_warning :: "level \<times> message \<Rightarrow> bool" where
  "loop_or_no_warning e = (\<not> is_warning e \<or> is_reconnect_warning e \<or> is_disconnect_warning e)"

definition other_warnings :: "engine \<Rightarrow> (level \<times> message) list" where
  "other_warnings s = filter (\<lambda>e. \<not> loop_or_no_warning e) (logged s)"

text \<open>The log \<open>ys\<close> is the log \<open>xs\<close> with more records after it, all of the kind \<open>Q\<close>.\<close>

definition extends :: "('a \<Rightarrow> bool) \<Rightarrow> 'a list \<Rightarrow> 'a list \<Rightarrow> bool" where
  "extends Q xs ys \<longleftrightarrow> (\<exists>zs. ys = xs @ zs \<and> list_all Q zs)"

text \<open>A platform on which the context cannot be created.\<close>

definition dead_platform :: platform where
  "dead_platform = ok_platform\<lparr>context_fails := True\<rparr>"

subsection \<open>Platforms and states of the examples\<close>

text \<open>A platform on which connecting the source 1 throws, as \<^verbatim>\<open>connect\<close> does for a
  node of another context; one on which disconnecting the source 0 throws; and one on
  which the source 0 cannot be connected to the panner.\<close>

definition foreign_source_platform :: platform where
  "foreign_source_platform = ok_platform\<lparr>connect_fails := (\<lambda>a b. a = Source 1)\<rparr>"

definition stuck_source_platform :: platform where
  "stuck_source_platform = ok_platform\<lparr>disconnect_fails := (\<lambda>n. n = Source 0)\<rparr>"

definition panner_refusing_platform :: platform where
  "panner_refusing_platform =
     ok_platform\<lparr>connect_fails := (\<lambda>a b. a = Source 0 \<and> b = Panner)\<rparr>"

definition one_source :: engine where
  "one_source = run ok_platform [ConnectAudioSource 0] init_engine"

definition three_sources :: engine where
  "three_sources =
     run foreign_source_platform
       [ConnectAudioSource 0, ConnectAudioSource 1, ConnectAudioSource 2] init_engine"

definition panned_then_cut :: engine where
  "panned_then_cut =
     run ok_platform
       [SetAudioMode ''stereopanner'', ConnectAudioSource 0, DisconnectStereoPanner] init_engine"

definition stuck_pair :: engine where
  "stuck_pair =
     run stuck_source_platform
       [SetAudioMode ''stereopanner'', ConnectAudioSource 0, ConnectAudioSource 1] init_engine"

definition panner_mode :: engine where
  "panner_mode = run panner_refusing_platform [SetAudioMode ''stereopanner''] init_engine"

definition panned_source :: engine where
  "panned_source =
     run ok_platform [ConnectAudioSource 0, SetAudioMode ''stereopanner''] init_engine"

section \<open>Frame lemmas for the primitive effects and the lazy singletons\<close>

lemma say_fields [simp]:
  "audioContext (say l m s) = audioContext s"
  "stereoPannerNode (say l m s) = stereoPannerNode s"
  "currentAudioMode (say l m s) = currentAudioMode s"
  "connectedSources (say l m s) = connectedSources s"
  "outputs (say l m s) = outputs s"
  "logged (say l m s) = logged s @ [(l, m)]"
  by (simp_all add: say_def)

lemma connect_fields [simp]:
  "audioContext (connect a b s) = audioContext s"
  "stereoPannerNode (connect a b s) = stereoPannerNode s"
  "currentAudioMode (connect a b s) = currentAudioMode s"
  "connectedSources (connect a b s) = connectedSources s"
  "outputs (connect a b s) n = (if n = a then insert b (outputs s a) else outputs s n)"
  "logged (connect a b s) = logged s"
  by (simp_all add: connect_def)

lemma disconnect_fields [simp]:
  "audioContext (disconnect a s) = audioContext s"
  "stereoPannerNode (disconnect a s) = stereoPannerNode s"
  "currentAudioMode (disconnect a s) = currentAudioMode s"
  "connectedSources (disconnect a s) = connectedSources s"
  "outputs (disconnect a s) n = (if n = a then {} else outputs s n)"
  "logged (disconnect a s) = logged s"
  by (simp_all add: disconnect_def)

lemma add_source_fields [simp]:
  "audioContext (add_source x s) = audioContext s"
  "stereoPannerNode (add_source x s) = stereoPannerNode s"
  "currentAudioMode (add_source x s) = currentAudioMode s"
  "connectedSources (add_source x s) =
     (if x \<in> set (connectedSources s) then connectedSources s else connectedSources s @ [x])"
  "outputs (add_source x s) = outputs s"
  "logged (add_source x s) = logged s"
  by (simp_all add: add_source_def)

lemma getCurrentPanValue_cong [simp]:
  "getCurrentPanValue (say l m s) = getCurrentPanValue s"
  "getCurrentPanValue (connect a b s) = getCurrentPanValue s"
  "getCurrentPanValue (disconnect a s) = getCurrentPanValue s"
  "getCurrentPanValue (add_source x s) = getCurrentPanValue s"
  by (simp_all add: getCurrentPanValue_def)

lemma getAudioContext_there: "audioContext s \<Longrightarrow> getAudioContext pf s = (Inr (), s)"
  by (simp add: getAudioContext_def)

lemma getAudioContext_fst: "fst (getAudioContext pf s) = Inr () \<longleftrightarrow> context_available pf s"
  by (simp add: getAudioContext_def context_available_def)

lemma getAudioContext_snd [simp]:
  "audioContext (snd (getAudioContext pf s)) = context_available pf s"
  "stereoPannerNode (snd (getAudioContext pf s)) = stereoPannerNode s"
  "currentAudioMode (snd (getAudioContext pf s)) = currentAudioMode s"
  "connectedSources (snd (getAudioContext pf s)) = connectedSources s"
  "outputs (snd (getAudioContext pf s)) = outputs s"
  by (simp_all add: getAudioContext_def context_available_def)

lemma getStereoPannerNode_fst:
  "fst (getStereoPannerNode pf v s) = Inr () \<longleftrightarrow> context_available pf s \<and> panner_available pf s"
  by (auto simp: getStereoPannerNode_def getAudioContext_def context_available_def
      panner_available_def split: option.splits)

lemma getStereoPannerNode_snd [simp]:
  "audioContext (snd (getStereoPannerNode pf v s)) = context_available pf s"
  "currentAudioMode (snd (getStereoPannerNode pf v s)) = currentAudioMode s"
  "connectedSources (snd (getStereoPannerNode pf v s)) = connectedSources s"
  "outputs (snd (getStereoPannerNode pf v s)) = outputs s"
  by (auto simp: getStereoPannerNode_def getAudioContext_def context_available_def
      split: option.splits)

lemma getStereoPannerNode_panner:
  "stereoPannerNode (snd (getStereoPannerNode pf v s)) =
     (case stereoPannerNode s of
        Some p \<Rightarrow> Some p
      | None \<Rightarrow> if context_available pf s \<and> \<not> panner_fails pf
                 then Some \<lparr>pan = clamp v, scheduled = []\<rparr> else None)"
  by (auto simp: getStereoPannerNode_def getAudioContext_def context_available_def
      split: option.splits)

lemma panner_available_frame [simp]:
  "panner_available pf (say l m s) = panner_available pf s"
  "panner_available pf (connect a b s) = panner_available pf s"
  "panner_available pf (disconnect a s) = panner_available pf s"
  "panner_available pf (add_source x s) = panner_available pf s"
  by (simp_all add: panner_available_def)

lemma warnings_frame [simp]:
  "reconnect_warnings (say l m s) = reconnect_warnings s + (if is_reconnect_warning (l, m) then 1 else 0)"
  "reconnect_warnings (connect a b s) = reconnect_warnings s"
  "reconnect_warnings (disconnect a s) = reconnect_warnings s"
  "reconnect_warnings (add_source x s) = reconnect_warnings s"
  "disconnect_warnings (say l m s) = disconnect_warnings s + (if is_disconnect_warning (l, m) then 1 else 0)"
  "disconnect_warnings (connect a b s) = disconnect_warnings s"
  "disconnect_warnings (disconnect a s) = disconnect_warnings s"
  "disconnect_warnings (add_source x s) = disconnect_warnings s"
  by (simp_all add: reconnect_warnings_def disconnect_warnings_def add_source_def)

text \<open>Routing through the panner, once the context exists.\<close>

lemma through_panner_fst:
  "audioContext s \<Longrightarrow>
   fst (connectAudioThroughStereoPanner pf x v s) = Inr () \<longleftrightarrow>
     \<not> rewire_fails pf ''stereopanner'' (panner_available pf s) x"
  by (auto simp: connectAudioThroughStereoPanner_def getAudioContext_there
      getStereoPannerNode_def rewire_fails_def panner_available_def Let_def
      split: option.splits)

lemma through_panner_outputs:
  "audioContext s \<Longrightarrow>
   outputs (snd (connectAudioThroughStereoPanner pf x v s)) n =
     outputs s n \<union> wire_edges pf ''stereopanner'' (panner_available pf s) x n"
  by (auto simp: connectAudioThroughStereoPanner_def getAudioContext_there
      getStereoPannerNode_def wire_edges_def panner_available_def Let_def
      split: option.splits)

lemma through_panner_fields:
  "audioContext s \<Longrightarrow> audioContext (snd (connectAudioThroughStereoPanner pf x v s))"
  "currentAudioMode (snd (connectAudioThroughStereoPanner pf x v s)) = currentAudioMode s"
  "x \<in> set (connectedSources s) \<Longrightarrow>
     connectedSources (snd (connectAudioThroughStereoPanner pf x v s)) = connectedSources s"
  "audioContext s \<Longrightarrow>
     panner_available pf (snd (connectAudioThroughStereoPanner pf x v s)) = panner_available pf s"
  "getCurrentPanValue (snd (connectAudioThroughStereoPanner pf x 0 s)) = getCurrentPanValue s"
  by (auto simp: connectAudioThroughStereoPanner_def getAudioContext_def
      getStereoPannerNode_def panner_available_def Let_def getCurrentPanValue_def clamp_def
      split: option.splits)

lemma through_panner_more:
  "audioContext s \<Longrightarrow>
     reconnect_warnings (snd (connectAudioThroughStereoPanner pf x v s)) = reconnect_warnings s"
  "disconnect_warnings (snd (connectAudioThroughStereoPanner pf x v s)) = disconnect_warnings s"
  "stereoPannerNode s = Some p \<Longrightarrow>
     stereoPannerNode (snd (connectAudioThroughStereoPanner pf x v s)) = Some p"
  "audioContext s \<Longrightarrow> stereoPannerNode s = None \<Longrightarrow>
     stereoPannerNode (snd (connectAudioThroughStereoPanner pf x v s)) = None \<longleftrightarrow> panner_fails pf"
  "set (connectedSources s) \<subseteq> set (connectedSources (snd (connectAudioThroughStereoPanner pf x v s)))"
  "set (connectedSources (snd (connectAudioThroughStereoPanner pf x v s))) \<subseteq> insert x (set (connectedSources s))"
  by (auto simp: connectAudioThroughStereoPanner_def getAudioContext_def
      getStereoPannerNode_def panner_available_def Let_def
      reconnect_warnings_def disconnect_warnings_def
      split: option.splits)

text \<open>One round of the reconnection loop.\<close>

lemma reconnect_source_alt:
  "reconnect_source pf m x s =
     (if m = ''stereopanner'' then
        (case fst (connectAudioThroughStereoPanner pf x 0 s) of
           Inl e \<Rightarrow> say Warn (SourceReconnectFailed e) (snd (connectAudioThroughStereoPanner pf x 0 s))
         | Inr _ \<Rightarrow> snd (connectAudioThroughStereoPanner pf x 0 s))
      else if connect_fails pf (Source x) Destination
        then say Warn (SourceReconnectFailed (ConnectionError (Source x) Destination)) s
      else connect (Source x) Destination s)"
  by (auto simp: reconnect_source_def split: prod.splits sum.splits)

lemma reconnect_source_outputs:
  "audioContext s \<Longrightarrow>
   outputs (reconnect_source pf m x s) n = outputs s n \<union> wire_edges pf m (panner_available pf s) x n"
  by (auto simp: reconnect_source_alt through_panner_outputs wire_edges_def split: sum.splits)

lemma reconnect_source_fields:
  "audioContext s \<Longrightarrow> audioContext (reconnect_source pf m x s)"
  "currentAudioMode (reconnect_source pf m x s) = currentAudioMode s"
  "x \<in> set (connectedSources s) \<Longrightarrow> connectedSources (reconnect_source pf m x s) = connectedSources s"
  "audioContext s \<Longrightarrow> panner_available pf (reconnect_source pf m x s) = panner_available pf s"
  "getCurrentPanValue (reconnect_source pf m x s) = getCurrentPanValue s"
  "disconnect_warnings (reconnect_source pf m x s) = disconnect_warnings s"
  "set (connectedSources s) \<subseteq> set (connectedSources (reconnect_source pf m x s))"
  using through_panner_more(5) [of s pf x 0]
  by (auto simp: reconnect_source_alt through_panner_fields through_panner_more(2)
      split: sum.splits)

lemma reconnect_source_warnings:
  "audioContext s \<Longrightarrow>
   reconnect_warnings (reconnect_source pf m x s) =
     reconnect_warnings s + (if rewire_fails pf m (panner_available pf s) x then 1 else 0)"
  using through_panner_fst [of s pf x 0]
  by (auto simp: reconnect_source_alt rewire_fails_def through_panner_more(1) split: sum.splits)

lemma getAudioContext_more [simp]:
  "panner_available pf (snd (getAudioContext pf s)) = panner_available pf s"
  "getCurrentPanValue (snd (getAudioContext pf s)) = getCurrentPanValue s"
  "reconnect_warnings (snd (getAudioContext pf s)) = reconnect_warnings s"
  "disconnect_warnings (snd (getAudioContext pf s)) = disconnect_warnings s"
  by (simp_all add: getAudioContext_def panner_available_def getCurrentPanValue_def
      reconnect_warnings_def disconnect_warnings_def say_def)

lemma reconnect_source_panner:
  "stereoPannerNode s = Some p \<Longrightarrow> stereoPannerNode (reconnect_source pf m x s) = Some p"
  by (simp add: reconnect_source_alt through_panner_more(3) split: sum.splits)

lemma reconnect_source_creates:
  assumes "audioContext s" "\<not> panner_fails pf"
  shows "stereoPannerNode (reconnect_source pf ''stereopanner'' x s) \<noteq> None"
proof (cases "stereoPannerNode s")
  case None
  with assms through_panner_more(4) [of s pf x 0]
  have "stereoPannerNode (snd (connectAudioThroughStereoPanner pf x 0 s)) \<noteq> None" by simp
  then show ?thesis by (simp add: reconnect_source_alt split: sum.splits)
next
  case (Some p)
  then show ?thesis by (simp add: reconnect_source_panner)
qed

text \<open>The reconnection loop.\<close>

lemma reconnect_loop:
  "audioContext s \<Longrightarrow> set xs \<subseteq> set (connectedSources s) \<Longrightarrow>
   audioContext (fold (reconnect_source pf m) xs s)
   \<and> currentAudioMode (fold (reconnect_source pf m) xs s) = currentAudioMode s
   \<and> connectedSources (fold (reconnect_source pf m) xs s) = connectedSources s
   \<and> panner_available pf (fold (reconnect_source pf m) xs s) = panner_available pf s
   \<and> getCurrentPanValue (fold (reconnect_source pf m) xs s) = getCurrentPanValue s
   \<and> disconnect_warnings (fold (reconnect_source pf m) xs s) = disconnect_warnings s
   \<and> outputs (fold (reconnect_source pf m) xs s) n =
       outputs s n \<union> (\<Union>x\<in>set xs. wire_edges pf m (panner_available pf s) x n)
   \<and> reconnect_warnings (fold (reconnect_source pf m) xs s) =
       reconnect_warnings s + length (filter (rewire_fails pf m (panner_available pf s)) xs)"
proof (induction xs arbitrary: s)
  case Nil
  then show ?case by simp
next
  case (Cons x xs)
  let ?t = "reconnect_source pf m x s"
  from Cons.prems have x: "x \<in> set (connectedSources s)" by simp
  have t: "audioContext ?t" "connectedSources ?t = connectedSources s"
    "panner_available pf ?t = panner_available pf s"
    using Cons.prems(1) x by (simp_all add: reconnect_source_fields)
  have "set xs \<subseteq> set (connectedSources ?t)" using Cons.prems(2) t(2) by simp
  from Cons.IH [OF t(1) this] show ?case
    using Cons.prems(1)
    by (simp add: t reconnect_source_fields reconnect_source_outputs
        reconnect_source_warnings Un_assoc)
qed

lemma reconnect_loop_panner:
  "stereoPannerNode s = Some p \<Longrightarrow> stereoPannerNode (fold (reconnect_source pf m) xs s) = Some p"
  by (induction xs arbitrary: s) (simp_all add: reconnect_source_panner)

lemma reconnect_loop_creates:
  "audioContext s \<Longrightarrow> \<not> panner_fails pf \<Longrightarrow> xs \<noteq> [] \<Longrightarrow>
   stereoPannerNode (fold (reconnect_source pf ''stereopanner'') xs s) \<noteq> None"
proof (cases xs)
  case Nil
  assume "xs \<noteq> []" with Nil show ?thesis by simp
next
  case (Cons x ys)
  assume "audioContext s" "\<not> panner_fails pf"
  then obtain p where "stereoPannerNode (reconnect_source pf ''stereopanner'' x s) = Some p"
    using reconnect_source_creates [of s pf x] by auto
  then show ?thesis using Cons by (simp add: reconnect_loop_panner)
qed

text \<open>The disconnection loop and the panner's disconnection.\<close>

lemma disconnect_source_fields [simp]:
  "audioContext (disconnect_source pf x s) = audioContext s"
  "stereoPannerNode (disconnect_source pf x s) = stereoPannerNode s"
  "currentAudioMode (disconnect_source pf x s) = currentAudioMode s"
  "connectedSources (disconnect_source pf x s) = connectedSources s"
  "reconnect_warnings (disconnect_source pf x s) = reconnect_warnings s"
  "disconnect_warnings (disconnect_source pf x s) =
     disconnect_warnings s + (if disconnect_fails pf (Source x) then 1 else 0)"
  "outputs (disconnect_source pf x s) n =
     (if n = Source x \<and> \<not> disconnect_fails pf n then {} else outputs s n)"
  by (auto simp: disconnect_source_def)

lemma disconnect_loop:
  "audioContext (fold (disconnect_source pf) xs s) = audioContext s
   \<and> stereoPannerNode (fold (disconnect_source pf) xs s) = stereoPannerNode s
   \<and> currentAudioMode (fold (disconnect_source pf) xs s) = currentAudioMode s
   \<and> connectedSources (fold (disconnect_source pf) xs s) = connectedSources s
   \<and> reconnect_warnings (fold (disconnect_source pf) xs s) = reconnect_warnings s
   \<and> disconnect_warnings (fold (disconnect_source pf) xs s) =
       disconnect_warnings s + length (filter (\<lambda>x. disconnect_fails pf (Source x)) xs)
   \<and> outputs (fold (disconnect_source pf) xs s) n =
       (if (\<exists>x\<in>set xs. n = Source x) \<and> \<not> disconnect_fails pf n then {} else outputs s n)"
  by (induction xs arbitrary: s) auto

lemma disconnectStereoPanner_fields [simp]:
  "audioContext (disconnectStereoPanner pf s) = audioContext s"
  "stereoPannerNode (disconnectStereoPanner pf s) = stereoPannerNode s"
  "currentAudioMode (disconnectStereoPanner pf s) = currentAudioMode s"
  "connectedSources (disconnectStereoPanner pf s) = connectedSources s"
  "reconnect_warnings (disconnectStereoPanner pf s) = reconnect_warnings s"
  "disconnect_warnings (disconnectStereoPanner pf s) = disconnect_warnings s"
  "outputs (disconnectStereoPanner pf s) n =
     (if n = Panner \<and> stereoPannerNode s \<noteq> None \<and> \<not> disconnect_fails pf Panner
      then {} else outputs s n)"
  by (auto simp: disconnectStereoPanner_def split: option.splits)

lemma disconnectAllSources_fields [simp]:
  "audioContext (disconnectAllSources pf s) = audioContext s"
  "stereoPannerNode (disconnectAllSources pf s) = stereoPannerNode s"
  "currentAudioMode (disconnectAllSources pf s) = currentAudioMode s"
  "connectedSources (disconnectAllSources pf s) = connectedSources s"
  "reconnect_warnings (disconnectAllSources pf s) = reconnect_warnings s"
  "disconnect_warnings (disconnectAllSources pf s) =
     disconnect_warnings s
       + length (filter (\<lambda>x. disconnect_fails pf (Source x)) (connectedSources s))"
  by (simp_all add: disconnectAllSources_def disconnect_loop)

lemma disconnectAllSources_outputs:
  "outputs (disconnectAllSources pf s) n = (if clearable pf s n then {} else outputs s n)"
  by (cases n) (auto simp: disconnectAllSources_def disconnect_loop clearable_def)

text \<open>A mode change, in full.\<close>

lemma reconnectSourcesWithMode_alt:
  "reconnectSourcesWithMode pf m s =
     (if context_available pf s
        then (Inr (), fold (reconnect_source pf m) (connectedSources s) (snd (getAudioContext pf s)))
      else (Inl AudioInitError, snd (getAudioContext pf s)))"
  by (simp add: reconnectSourcesWithMode_def getAudioContext_def context_available_def)

lemma setAudioMode_alt:
  "setAudioMode pf m s =
     (if context_available pf s
        then (Inr (),
              say Info (ModeChanged m)
                (fold (reconnect_source pf m) (connectedSources s)
                   (snd (getAudioContext pf
                      ((disconnectAllSources pf (say Info (ModeChanging (currentAudioMode s) m) s))
                         \<lparr>currentAudioMode := m\<rparr>)))))
      else (Inl AudioInitError,
            say Error (ModeChangeFailed AudioInitError)
              (snd (getAudioContext pf
                 ((disconnectAllSources pf (say Info (ModeChanging (currentAudioMode s) m) s))
                    \<lparr>currentAudioMode := m\<rparr>)))))"
  by (simp add: setAudioMode_def reconnectSourcesWithMode_alt Let_def context_available_def)

lemma mode_update_frame [simp]:
  "panner_available pf (s\<lparr>currentAudioMode := m\<rparr>) = panner_available pf s"
  "context_available pf (s\<lparr>currentAudioMode := m\<rparr>) = context_available pf s"
  "getCurrentPanValue (s\<lparr>currentAudioMode := m\<rparr>) = getCurrentPanValue s"
  "reconnect_warnings (s\<lparr>currentAudioMode := m\<rparr>) = reconnect_warnings s"
  "disconnect_warnings (s\<lparr>currentAudioMode := m\<rparr>) = disconnect_warnings s"
  by (simp_all add: panner_available_def context_available_def getCurrentPanValue_def
      reconnect_warnings_def disconnect_warnings_def)

lemma disconnect_frame [simp]:
  "panner_available pf (disconnectAllSources pf s) = panner_available pf s"
  "context_available pf (disconnectAllSources pf s) = context_available pf s"
  "getCurrentPanValue (disconnectAllSources pf s) = getCurrentPanValue s"
  "context_available pf (say l msg s) = context_available pf s"
  "clearable pf (say l msg s) n = clearable pf s n"
  by (simp_all add: panner_available_def context_available_def getCurrentPanValue_def
      clearable_def cong: node.case_cong)

lemma setAudioMode_fst:
  "fst (setAudioMode pf m s) = (if context_available pf s then Inr () else Inl AudioInitError)"
  by (simp add: setAudioMode_alt)

lemma setAudioMode_fields:
  "currentAudioMode (snd (setAudioMode pf m s)) = m"
  "connectedSources (snd (setAudioMode pf m s)) = connectedSources s"
  "audioContext (snd (setAudioMode pf m s)) = context_available pf s"
  "panner_available pf (snd (setAudioMode pf m s)) = panner_available pf s"
  "getCurrentPanValue (snd (setAudioMode pf m s)) = getCurrentPanValue s"
  "disconnect_warnings (snd (setAudioMode pf m s)) =
     disconnect_warnings s
       + length (filter (\<lambda>x. disconnect_fails pf (Source x)) (connectedSources s))"
  "reconnect_warnings (snd (setAudioMode pf m s)) =
     reconnect_warnings s
       + (if context_available pf s
          then length (filter (rewire_fails pf m (panner_available pf s)) (connectedSources s))
          else 0)"
  "outputs (snd (setAudioMode pf m s)) n =
     (if clearable pf s n then {} else outputs s n)
       \<union> (if context_available pf s
          then (\<Union>x\<in>set (connectedSources s). wire_edges pf m (panner_available pf s) x n)
          else {})"
proof -
  let ?t0 = "(disconnectAllSources pf (say Info (ModeChanging (currentAudioMode s) m) s))
               \<lparr>currentAudioMode := m\<rparr>"
  let ?t1 = "snd (getAudioContext pf ?t0)"
  let ?t2 = "fold (reconnect_source pf m) (connectedSources s) ?t1"
  have t1: "audioContext ?t1 = context_available pf s" "connectedSources ?t1 = connectedSources s"
    "currentAudioMode ?t1 = m" "panner_available pf ?t1 = panner_available pf s"
    "getCurrentPanValue ?t1 = getCurrentPanValue s"
    "reconnect_warnings ?t1 = reconnect_warnings s"
    "disconnect_warnings ?t1 = disconnect_warnings s
       + length (filter (\<lambda>x. disconnect_fails pf (Source x)) (connectedSources s))"
    "outputs ?t1 n = (if clearable pf s n then {} else outputs s n)"
    by (simp_all add: disconnectAllSources_outputs)
  have loop: "context_available pf s \<Longrightarrow>
     audioContext ?t2 \<and> currentAudioMode ?t2 = m \<and> connectedSources ?t2 = connectedSources s
     \<and> panner_available pf ?t2 = panner_available pf s
     \<and> getCurrentPanValue ?t2 = getCurrentPanValue s
     \<and> disconnect_warnings ?t2 = disconnect_warnings ?t1
     \<and> outputs ?t2 n =
         outputs ?t1 n \<union> (\<Union>x\<in>set (connectedSources s). wire_edges pf m (panner_available pf s) x n)
     \<and> reconnect_warnings ?t2 =
         reconnect_warnings s
           + length (filter (rewire_fails pf m (panner_available pf s)) (connectedSources s))"
    using reconnect_loop [of ?t1 "connectedSources s" pf m n] t1(1-6) by simp
  show "currentAudioMode (snd (setAudioMode pf m s)) = m"
    using loop t1 by (simp add: setAudioMode_alt)
  show "connectedSources (snd (setAudioMode pf m s)) = connectedSources s"
    using loop t1 by (simp add: setAudioMode_alt)
  show "audioContext (snd (setAudioMode pf m s)) = context_available pf s"
    using loop t1 by (simp add: setAudioMode_alt)
  show "panner_available pf (snd (setAudioMode pf m s)) = panner_available pf s"
    using loop t1 by (simp add: setAudioMode_alt)
  show "getCurrentPanValue (snd (setAudioMode pf m s)) = getCurrentPanValue s"
    using loop t1 by (simp add: setAudioMode_alt)
  show "disconnect_warnings (snd (setAudioMode pf m s)) =
     disconnect_warnings s
       + length (filter (\<lambda>x. disconnect_fails pf (Source x)) (connectedSources s))"
    using loop t1 by (simp add: setAudioMode_alt)
  show "reconnect_warnings (snd (setAudioMode pf m s)) =
     reconnect_warnings s
       + (if context_available pf s
          then length (filter (rewire_fails pf m (panner_available pf s)) (connectedSources s))
          else 0)"
    using loop t1 by (simp add: setAudioMode_alt)
  show "outputs (snd (setAudioMode pf m s)) n =
     (if clearable pf s n then {} else outputs s n)
       \<union> (if context_available pf s
          then (\<Union>x\<in>set (connectedSources s). wire_edges pf m (panner_available pf s) x n)
          else {})"
    using loop t1 by (simp add: setAudioMode_alt)
qed

text \<open>Setting the pan value.\<close>

lemma setPanValue_alt:
  "setPanValue pf v when s =
     (if fst (getStereoPannerNode pf 0 s) = Inr () then
        (case when of
           Some t \<Rightarrow>
             if schedule_fails pf t
               then (Inl (ParamError t),
                     say Error (PanValueFailed (ParamError t)) (snd (getStereoPannerNode pf 0 s)))
             else (Inr (),
                   say Debug (PanValueSet (clamp v) (logged_when when))
                     ((snd (getStereoPannerNode pf 0 s))
                        \<lparr>stereoPannerNode :=
                            map_option (\<lambda>p. p\<lparr>scheduled := scheduled p @ [(clamp v, t)]\<rparr>)
                              (stereoPannerNode (snd (getStereoPannerNode pf 0 s)))\<rparr>))
         | None \<Rightarrow>
             (Inr (),
              say Debug (PanValueSet (clamp v) (logged_when when))
                ((snd (getStereoPannerNode pf 0 s))
                   \<lparr>stereoPannerNode :=
                       map_option (\<lambda>p. p\<lparr>pan := clamp v\<rparr>)
                         (stereoPannerNode (snd (getStereoPannerNode pf 0 s)))\<rparr>)))
      else (fst (getStereoPannerNode pf 0 s), snd (getStereoPannerNode pf 0 s)))"
  by (cases "getStereoPannerNode pf 0 s"; cases "fst (getStereoPannerNode pf 0 s)")
     (auto simp: setPanValue_def Let_def split: option.splits)

lemma setPanValue_fst:
  "fst (setPanValue pf v when s) = Inr () \<longleftrightarrow>
     context_available pf s \<and> panner_available pf s
     \<and> (case when of None \<Rightarrow> True | Some t \<Rightarrow> \<not> schedule_fails pf t)"
  by (auto simp: setPanValue_alt getStereoPannerNode_fst split: option.splits)

lemma getStereoPannerNode_there:
  "fst (getStereoPannerNode pf v s) = Inr () \<Longrightarrow>
   \<exists>p. stereoPannerNode (snd (getStereoPannerNode pf v s)) = Some p
       \<and> pan p = (case stereoPannerNode s of Some q \<Rightarrow> pan q | None \<Rightarrow> clamp v)
       \<and> scheduled p = (case stereoPannerNode s of Some q \<Rightarrow> scheduled q | None \<Rightarrow> [])"
  by (auto simp: getStereoPannerNode_fst getStereoPannerNode_panner panner_available_def
      split: option.splits)

lemma setPanValue_now:
  assumes "fst (setPanValue pf v None s) = Inr ()"
  shows "getCurrentPanValue (snd (setPanValue pf v None s)) = clamp v"
    and "scheduledPanValues (snd (setPanValue pf v None s)) = scheduledPanValues s"
proof -
  from assms have ok: "fst (getStereoPannerNode pf 0 s) = Inr ()"
    by (simp add: setPanValue_fst getStereoPannerNode_fst)
  from getStereoPannerNode_there [OF ok] obtain p where
    p: "stereoPannerNode (snd (getStereoPannerNode pf 0 s)) = Some p"
       "scheduled p = (case stereoPannerNode s of Some q \<Rightarrow> scheduled q | None \<Rightarrow> [])"
    by blast
  show "getCurrentPanValue (snd (setPanValue pf v None s)) = clamp v"
    using ok p by (simp add: setPanValue_alt getCurrentPanValue_def say_def)
  show "scheduledPanValues (snd (setPanValue pf v None s)) = scheduledPanValues s"
    using ok p by (simp add: setPanValue_alt scheduledPanValues_def say_def)
qed

lemma setPanValue_later:
  assumes "fst (setPanValue pf v (Some t) s) = Inr ()"
  shows "scheduledPanValues (snd (setPanValue pf v (Some t) s)) = scheduledPanValues s @ [(clamp v, t)]"
    and "getCurrentPanValue (snd (setPanValue pf v (Some t) s)) = getCurrentPanValue s"
proof -
  from assms have ok: "fst (getStereoPannerNode pf 0 s) = Inr ()" and t: "\<not> schedule_fails pf t"
    by (simp_all add: setPanValue_fst getStereoPannerNode_fst)
  from getStereoPannerNode_there [OF ok] obtain p where
    p: "stereoPannerNode (snd (getStereoPannerNode pf 0 s)) = Some p"
       "pan p = (case stereoPannerNode s of Some q \<Rightarrow> pan q | None \<Rightarrow> clamp 0)"
       "scheduled p = (case stereoPannerNode s of Some q \<Rightarrow> scheduled q | None \<Rightarrow> [])"
    by blast
  show "scheduledPanValues (snd (setPanValue pf v (Some t) s)) = scheduledPanValues s @ [(clamp v, t)]"
    using ok t p by (simp add: setPanValue_alt scheduledPanValues_def say_def)
  show "getCurrentPanValue (snd (setPanValue pf v (Some t) s)) = getCurrentPanValue s"
    using ok t p
    by (simp add: setPanValue_alt getCurrentPanValue_def say_def clamp_def split: option.splits)
qed

lemma setPanValue_fields [simp]:
  "audioContext (snd (setPanValue pf v when s)) = context_available pf s"
  "currentAudioMode (snd (setPanValue pf v when s)) = currentAudioMode s"
  "connectedSources (snd (setPanValue pf v when s)) = connectedSources s"
  "outputs (snd (setPanValue pf v when s)) = outputs s"
  by (simp_all add: setPanValue_alt split: option.splits)

text \<open>Connecting a source.\<close>

lemma connectAudioSource_alt:
  "connectAudioSource pf x s =
     (if context_available pf s then
        (if currentAudioMode s = ''stereopanner'' then
           (case fst (connectAudioThroughStereoPanner pf x 0
                        (add_source x (snd (getAudioContext pf s)))) of
              Inl e \<Rightarrow>
                (Inl e,
                 say Error (SourceConnectFailed e)
                   (snd (connectAudioThroughStereoPanner pf x 0
                           (add_source x (snd (getAudioContext pf s))))))
            | Inr _ \<Rightarrow>
                (Inr (),
                 snd (connectAudioThroughStereoPanner pf x 0
                        (add_source x (snd (getAudioContext pf s))))))
         else if connect_fails pf (Source x) Destination
           then (Inl (ConnectionError (Source x) Destination),
                 say Error (SourceConnectFailed (ConnectionError (Source x) Destination))
                   (add_source x (snd (getAudioContext pf s))))
         else (Inr (),
               say Info RoutedDirectly
                 (connect (Source x) Destination (add_source x (snd (getAudioContext pf s))))))
      else (Inl AudioInitError, snd (getAudioContext pf s)))"
  by (auto simp: connectAudioSource_def getAudioContext_def context_available_def Let_def
      split: prod.splits sum.splits)

lemma through_panner_error:
  "audioContext s \<Longrightarrow> fst (connectAudioThroughStereoPanner pf x v s) \<noteq> Inl AudioInitError"
  by (auto simp: connectAudioThroughStereoPanner_def getAudioContext_there
      getStereoPannerNode_def Let_def split: option.splits)

lemma connectAudioSource_fst:
  "fst (connectAudioSource pf x s) = Inr () \<longleftrightarrow>
     context_available pf s \<and> \<not> rewire_fails pf (currentAudioMode s) (panner_available pf s) x"
  "fst (connectAudioSource pf x s) = Inl AudioInitError \<longleftrightarrow> \<not> context_available pf s"
  using through_panner_fst [of "add_source x (snd (getAudioContext pf s))" pf x 0]
    through_panner_error [of "add_source x (snd (getAudioContext pf s))" pf x 0]
  by (auto simp: connectAudioSource_alt rewire_fails_def split: sum.splits)

lemma connectAudioSource_fields:
  "currentAudioMode (snd (connectAudioSource pf x s)) = currentAudioMode s"
  "audioContext (snd (connectAudioSource pf x s)) = context_available pf s"
  "connectedSources (snd (connectAudioSource pf x s)) =
     (if context_available pf s \<and> x \<notin> set (connectedSources s)
      then connectedSources s @ [x] else connectedSources s)"
  "panner_available pf (snd (connectAudioSource pf x s)) = panner_available pf s"
  "getCurrentPanValue (snd (connectAudioSource pf x s)) = getCurrentPanValue s"
  "outputs (snd (connectAudioSource pf x s)) n =
     outputs s n \<union>
       (if context_available pf s
        then wire_edges pf (currentAudioMode s) (panner_available pf s) x n else {})"
  by (auto simp: connectAudioSource_alt through_panner_fields through_panner_outputs
      wire_edges_def split: sum.splits)

section \<open>What a mode change writes to the log\<close>

lemma extends_refl: "extends Q xs xs"
  by (simp add: extends_def)

lemma extends_trans: "extends Q xs ys \<Longrightarrow> extends Q ys zs \<Longrightarrow> extends Q xs zs"
  by (auto simp: extends_def)

lemma extends_snoc: "extends Q xs ys \<Longrightarrow> Q e \<Longrightarrow> extends Q xs (ys @ [e])"
  by (auto simp: extends_def)

lemma extends_filter: "extends Q xs ys \<Longrightarrow> filter (\<lambda>e. \<not> Q e) ys = filter (\<lambda>e. \<not> Q e) xs"
  by (auto simp: extends_def list_all_iff filter_empty_conv)

lemma extends_take: "extends Q (xs @ [e]) ys \<Longrightarrow> take (Suc (length xs)) ys = xs @ [e]"
  by (auto simp: extends_def)

lemma quiet_records [simp]:
  "l \<noteq> Warn \<Longrightarrow> loop_or_no_warning (l, m)"
  "loop_or_no_warning (l, SourceReconnectFailed e)"
  "loop_or_no_warning (l, SourceDisconnectFailed e)"
  "\<not> loop_or_no_warning (Warn, SoundOptionUnknown x)"
  by (cases l; simp add: loop_or_no_warning_def)+

lemma log_getAudioContext:
  "extends loop_or_no_warning (logged s) (logged (snd (getAudioContext pf s)))"
  by (simp add: getAudioContext_def extends_refl extends_snoc)

lemma log_getStereoPannerNode:
  "extends loop_or_no_warning (logged s) (logged (snd (getStereoPannerNode pf v s)))"
proof -
  have "extends loop_or_no_warning (logged (snd (getAudioContext pf s)))
          (logged (snd (getStereoPannerNode pf v s)))"
    by (cases "getAudioContext pf s"; cases "fst (getAudioContext pf s)")
       (auto simp: getStereoPannerNode_def extends_refl extends_snoc split: option.splits)
  with log_getAudioContext show ?thesis by (rule extends_trans)
qed

lemma log_through_panner:
  "extends loop_or_no_warning (logged s) (logged (snd (connectAudioThroughStereoPanner pf x v s)))"
proof -
  let ?a = "snd (getAudioContext pf s)"
  let ?b = "snd (getStereoPannerNode pf v ?a)"
  have "extends loop_or_no_warning (logged s) (logged ?b)"
    using log_getAudioContext log_getStereoPannerNode by (rule extends_trans)
  moreover have "extends loop_or_no_warning (logged ?b)
      (logged (snd (connectAudioThroughStereoPanner pf x v s)))
    \<or> logged (snd (connectAudioThroughStereoPanner pf x v s)) = logged ?a"
    by (cases "getAudioContext pf s"; cases "fst (getAudioContext pf s)";
        cases "getStereoPannerNode pf v ?a"; cases "fst (getStereoPannerNode pf v ?a)")
       (auto simp: connectAudioThroughStereoPanner_def Let_def extends_refl extends_snoc)
  ultimately show ?thesis
    using log_getAudioContext [of s pf] by (auto intro: extends_trans)
qed

lemma log_reconnect_source:
  "extends loop_or_no_warning (logged s) (logged (reconnect_source pf m x s))"
  using log_through_panner [of s pf x 0]
  by (auto simp: reconnect_source_alt extends_refl extends_snoc split: sum.splits)

lemma log_reconnect_loop:
  "extends loop_or_no_warning (logged s) (logged (fold (reconnect_source pf m) xs s))"
proof (induction xs arbitrary: s)
  case Nil
  show ?case by (simp add: extends_refl)
next
  case (Cons x xs)
  from log_reconnect_source Cons.IH show ?case by (simp, rule extends_trans)
qed

lemma log_disconnect_loop:
  "extends loop_or_no_warning (logged s) (logged (fold (disconnect_source pf) xs s))"
proof (induction xs arbitrary: s)
  case Nil
  show ?case by (simp add: extends_refl)
next
  case (Cons x xs)
  have "extends loop_or_no_warning (logged s) (logged (disconnect_source pf x s))"
    by (simp add: disconnect_source_def extends_refl extends_snoc)
  from this Cons.IH show ?case by (simp, rule extends_trans)
qed

lemma log_disconnectAllSources:
  "extends loop_or_no_warning (logged s) (logged (disconnectAllSources pf s))"
proof -
  have "\<And>t. extends loop_or_no_warning (logged t) (logged (disconnectStereoPanner pf t))"
    by (simp add: disconnectStereoPanner_def extends_refl extends_snoc split: option.splits)
  with log_disconnect_loop show ?thesis
    unfolding disconnectAllSources_def by (rule extends_trans)
qed

lemma log_setAudioMode:
  "extends loop_or_no_warning
     (logged s @ [(Info, ModeChanging (currentAudioMode s) m)])
     (logged (snd (setAudioMode pf m s)))"
proof -
  let ?s0 = "say Info (ModeChanging (currentAudioMode s) m) s"
  let ?t0 = "(disconnectAllSources pf ?s0)\<lparr>currentAudioMode := m\<rparr>"
  let ?t1 = "snd (getAudioContext pf ?t0)"
  let ?t2 = "fold (reconnect_source pf m) (connectedSources s) ?t1"
  have 0: "extends loop_or_no_warning (logged ?s0) (logged ?t0)"
    using log_disconnectAllSources [of ?s0 pf] by simp
  have 1: "extends loop_or_no_warning (logged ?s0) (logged ?t1)"
    using 0 log_getAudioContext by (rule extends_trans)
  have 2: "extends loop_or_no_warning (logged ?s0) (logged ?t2)"
    using 1 log_reconnect_loop by (rule extends_trans)
  show ?thesis
  proof (cases "context_available pf s")
    case True
    with extends_snoc [OF 2, of "(Info, ModeChanged m)"] show ?thesis
      by (simp add: setAudioMode_alt)
  next
    case False
    with extends_snoc [OF 1, of "(Error, ModeChangeFailed AudioInitError)"] show ?thesis
      by (simp add: setAudioMode_alt)
  qed
qed

lemma setAudioMode_other_warnings:
  "other_warnings (snd (setAudioMode pf m s)) = other_warnings s"
  using extends_filter [OF log_setAudioMode [of s m pf]]
  by (simp add: other_warnings_def)

lemma setAudioMode_log:
  "take (Suc (length (logged s))) (logged (snd (setAudioMode pf m s))) =
     logged s @ [(Info, ModeChanging (currentAudioMode s) m)]"
  "context_available pf s \<Longrightarrow> last (logged (snd (setAudioMode pf m s))) = (Info, ModeChanged m)"
  using extends_take [OF log_setAudioMode [of s m pf]]
  by (simp_all add: setAudioMode_alt)

section \<open>The pan value\<close>

text \<open>
  C5. For every real number \<open>v\<close> handed to \<^verbatim>\<open>setPanValue\<close>, what reaches the pan node is
  \<open>max (-1) (min 1 v)\<close>: written to \<^verbatim>\<open>pan.value\<close> at once when no time is given, so
  that \<^verbatim>\<open>getCurrentPanValue\<close> reads it, and scheduled at the given time, after the values
  scheduled before, when a time is given. The call returns normally exactly when the
  context and the panner are there or can be created and the scheduling call does not throw.
\<close>

theorem setPanValue_stores_clamped:
  "(fst (setPanValue pf v when s) = Inr () \<longleftrightarrow>
      context_available pf s \<and> panner_available pf s
      \<and> (case when of None \<Rightarrow> True | Some t \<Rightarrow> \<not> schedule_fails pf t))
   \<and> (fst (setPanValue pf v when s) = Inr () \<longrightarrow>
        (case when of
           None \<Rightarrow>
             getCurrentPanValue (snd (setPanValue pf v when s)) = max (- 1) (min 1 v)
             \<and> scheduledPanValues (snd (setPanValue pf v when s)) = scheduledPanValues s
         | Some t \<Rightarrow>
             scheduledPanValues (snd (setPanValue pf v when s)) =
               scheduledPanValues s @ [(max (- 1) (min 1 v), t)]
             \<and> getCurrentPanValue (snd (setPanValue pf v when s)) = getCurrentPanValue s))"
proof (intro conjI impI)
  show "fst (setPanValue pf v when s) = Inr () \<longleftrightarrow>
      context_available pf s \<and> panner_available pf s
      \<and> (case when of None \<Rightarrow> True | Some t \<Rightarrow> \<not> schedule_fails pf t)"
    by (rule setPanValue_fst)
next
  assume ok: "fst (setPanValue pf v when s) = Inr ()"
  show "case when of
           None \<Rightarrow>
             getCurrentPanValue (snd (setPanValue pf v when s)) = max (- 1) (min 1 v)
             \<and> scheduledPanValues (snd (setPanValue pf v when s)) = scheduledPanValues s
         | Some t \<Rightarrow>
             scheduledPanValues (snd (setPanValue pf v when s)) =
               scheduledPanValues s @ [(max (- 1) (min 1 v), t)]
             \<and> getCurrentPanValue (snd (setPanValue pf v when s)) = getCurrentPanValue s"
  proof (cases "when")
    case None
    with ok setPanValue_now [of pf v s] show ?thesis by (simp add: clamp_def)
  next
    case (Some t)
    with ok setPanValue_later [of pf v t s] show ?thesis by (simp add: clamp_def)
  qed
qed

theorem setPanValue_stores_clamped_witness:
  "getCurrentPanValue (snd (setPanValue ok_platform 3 None init_engine)) = 1
   \<and> scheduledPanValues (snd (setPanValue ok_platform (- 5) (Some 2) init_engine)) = [(- 1, 2)]
   \<and> getCurrentPanValue (snd (setPanValue ok_platform (- 5) (Some 2) init_engine)) = 0"
  using setPanValue_stores_clamped [of ok_platform 3 None init_engine]
    setPanValue_stores_clamped [of ok_platform "- 5" "Some 2" init_engine]
  by (simp add: context_available_def panner_available_def ok_platform_def init_engine_def
      scheduledPanValues_def getCurrentPanValue_def)

text \<open>
  C4. A mode change never touches the pan value: \<^verbatim>\<open>getCurrentPanValue\<close> reads the same
  before and after \<^verbatim>\<open>setAudioMode\<close>, whatever the mode and whether the call throws or
  not. So a value set at once, 0.7 say, is still read after the mode has gone to
  \<^verbatim>\<open>default\<close> and come back to \<^verbatim>\<open>stereopanner\<close>.
\<close>

theorem pan_value_survives_mode_changes:
  "getCurrentPanValue (snd (setAudioMode pf m s)) = getCurrentPanValue s
   \<and> (fst (setPanValue pf v None s) = Inr () \<longrightarrow>
        getCurrentPanValue
          (snd (setAudioMode pf m2 (snd (setAudioMode pf m1 (snd (setPanValue pf v None s))))))
        = max (- 1) (min 1 v))"
  using setPanValue_now(1) [of pf v s]
  by (simp add: setAudioMode_fields(5) clamp_def)

theorem pan_value_survives_mode_changes_witness:
  "currentAudioMode (snd (setAudioMode ok_platform ''stereopanner'' init_engine)) = ''stereopanner''
   \<and> getCurrentPanValue
        (snd (setAudioMode ok_platform ''stereopanner''
           (snd (setAudioMode ok_platform ''default''
              (snd (setPanValue ok_platform (7 / 10) None
                 (snd (setAudioMode ok_platform ''stereopanner'' init_engine))))))))
      = 7 / 10"
  using pan_value_survives_mode_changes
    [of ok_platform "''default''"
        "snd (setAudioMode ok_platform ''stereopanner'' init_engine)" "7 / 10"
        "''stereopanner''" "''default''"]
  by (simp add: setPanValue_fst setAudioMode_fields context_available_def panner_available_def
      ok_platform_def)

section \<open>The current mode\<close>

lemma exec_keeps_mode:
  "\<not> sets_mode c \<Longrightarrow> currentAudioMode (exec pf c s) = currentAudioMode s"
  by (cases c) (simp_all add: through_panner_fields connectAudioSource_fields)

lemma run_keeps_mode:
  "list_all (\<lambda>c. \<not> sets_mode c) cs \<Longrightarrow> currentAudioMode (run pf cs s) = currentAudioMode s"
  unfolding run_def by (induction cs arbitrary: s) (simp_all add: exec_keeps_mode)

text \<open>
  C9. \<^verbatim>\<open>getCurrentAudioMode\<close> returns the very string that the last call of
  \<^verbatim>\<open>setAudioMode\<close> was given, whether the mode is known or not and whether that call threw
  or not, and whatever calls that set no mode have come since. The string
  \<^verbatim>\<open>surround\<close> is read back as \<^verbatim>\<open>surround\<close>.
\<close>

theorem getCurrentAudioMode_is_last_set:
  "getCurrentAudioMode (snd (setAudioMode pf mode s)) = mode
   \<and> getCurrentAudioMode (snd (setAudioMode pf ''surround'' s)) = ''surround''
   \<and> (list_all (\<lambda>c. \<not> sets_mode c) cs \<longrightarrow>
        getCurrentAudioMode (run pf cs (snd (setAudioMode pf mode s))) = mode)"
  by (simp add: getCurrentAudioMode_def setAudioMode_fields(1) run_keeps_mode)

theorem getCurrentAudioMode_is_last_set_witness:
  "list_all (\<lambda>c. \<not> sets_mode c) [ConnectAudioSource 0, SetPanValue 1 None]
   \<and> getCurrentAudioMode
        (run ok_platform [ConnectAudioSource 0, SetPanValue 1 None]
           (snd (setAudioMode ok_platform ''surround'' init_engine))) = ''surround''
   \<and> ''surround'' \<noteq> ''default''"
  using getCurrentAudioMode_is_last_set
    [of ok_platform "''surround''" init_engine "[ConnectAudioSource 0, SetPanValue 1 None]"]
  by simp

lemma connectAudioSource_panner:
  "stereoPannerNode s = Some p \<Longrightarrow> stereoPannerNode (snd (connectAudioSource pf x s)) = Some p"
  "currentAudioMode s \<noteq> ''stereopanner'' \<Longrightarrow>
     stereoPannerNode (snd (connectAudioSource pf x s)) = stereoPannerNode s"
  by (auto simp: connectAudioSource_alt through_panner_more(3) split: sum.splits)

lemma wire_edges_at_source:
  "(\<Union>y\<in>set xs. wire_edges pf m a y (Source x)) =
     (if x \<in> set xs then wire_edges pf m a x (Source x) else {})"
  by (auto simp: wire_edges_def)

lemma wire_edges_own:
  "\<not> rewire_fails pf m a x \<Longrightarrow>
   wire_edges pf m a x (Source x) = (if m = ''stereopanner'' then {Panner} else {Destination})"
  "\<not> rewire_fails pf ''stereopanner'' a x \<Longrightarrow>
   wire_edges pf ''stereopanner'' a x Panner = {Destination}"
  by (auto simp: wire_edges_def rewire_fails_def split: if_splits)

lemma setAudioMode_reaches:
  assumes "context_available pf s" "x \<in> set (connectedSources s)"
    "\<not> rewire_fails pf m (panner_available pf s) x"
  shows "reaches_output m (snd (setAudioMode pf m s)) x"
proof (cases "m = ''stereopanner''")
  case True
  with assms(3) have w: "wire_edges pf m (panner_available pf s) x (Source x) = {Panner}"
    "wire_edges pf m (panner_available pf s) x Panner = {Destination}"
    by (simp_all add: wire_edges_own)
  with assms(1,2) True show ?thesis
    by (auto simp: reaches_output_def setAudioMode_fields(8))
next
  case False
  with assms(3) have "wire_edges pf m (panner_available pf s) x (Source x) = {Destination}"
    by (simp add: wire_edges_own)
  with assms(1,2) False show ?thesis
    by (auto simp: reaches_output_def setAudioMode_fields(8))
qed

lemma setAudioMode_source_outputs:
  assumes "context_available pf s" "x \<in> set (connectedSources s)"
    "\<not> disconnect_fails pf (Source x)"
  shows "outputs (snd (setAudioMode pf m s)) (Source x) =
           wire_edges pf m (panner_available pf s) x (Source x)"
proof -
  have c: "clearable pf s (Source x)" using assms(2,3) by (simp add: clearable_def)
  have "outputs (snd (setAudioMode pf m s)) (Source x) =
          (\<Union>y\<in>set (connectedSources s). wire_edges pf m (panner_available pf s) y (Source x))"
    using assms(1) c by (simp only: setAudioMode_fields(8) if_True Un_empty_left)
  also have "\<dots> = wire_edges pf m (panner_available pf s) x (Source x)"
    using assms(2) by (simp only: wire_edges_at_source if_True)
  finally show ?thesis .
qed

lemma setAudioMode_wired:
  assumes "context_available pf s" "x \<in> set (connectedSources s)"
    "\<not> disconnect_fails pf (Source x)" "\<not> rewire_fails pf m (panner_available pf s) x"
  shows "wired_as m (snd (setAudioMode pf m s)) x"
proof -
  have o: "outputs (snd (setAudioMode pf m s)) (Source x) =
          (if m = ''stereopanner'' then {Panner} else {Destination})"
    using setAudioMode_source_outputs [OF assms(1-3)] wire_edges_own(1) [OF assms(4)]
    by simp
  have r: "reaches_output m (snd (setAudioMode pf m s)) x"
    using assms(1,2,4) by (rule setAudioMode_reaches)
  show ?thesis
  proof (cases "m = ''stereopanner''")
    case True
    with o r show ?thesis by (simp add: wired_as_def reaches_output_def)
  next
    case False
    with o show ?thesis by (simp add: wired_as_def)
  qed
qed

section \<open>Rewiring on a mode change\<close>

text \<open>
  C1, as the code has it. After \<^verbatim>\<open>setAudioMode(m)\<close> has returned normally, for any mode
  string \<open>m\<close> and so for each of the four modes, and for every tracked source: if its
  wiring step did not throw, it has the connections of the rule of \<open>m\<close>; if its
  \<^verbatim>\<open>disconnect()\<close> did not throw, it has no connection but those of the rule of \<open>m\<close>, so
  none is left of the mode before; if neither threw, it is wired by the rule of \<open>m\<close> and
  by it alone. A source whose wiring step threw is skipped by the reconnection loop, one
  whose \<^verbatim>\<open>disconnect()\<close> threw by the disconnection loop, and the call still returns
  normally.
\<close>

theorem setAudioMode_rewires_every_sound_source:
  assumes "fst (setAudioMode pf m s) = Inr ()"
    and "x \<in> set (connectedSources (snd (setAudioMode pf m s)))"
  shows "(\<not> rewire_fails pf m (panner_available pf s) x \<longrightarrow>
            reaches_output m (snd (setAudioMode pf m s)) x)
    \<and> (\<not> disconnect_fails pf (Source x) \<longrightarrow>
          outputs (snd (setAudioMode pf m s)) (Source x)
            \<subseteq> (if m = ''stereopanner'' then {Panner} else {Destination}))
    \<and> (\<not> disconnect_fails pf (Source x) \<longrightarrow> \<not> rewire_fails pf m (panner_available pf s) x \<longrightarrow>
          wired_as m (snd (setAudioMode pf m s)) x)"
proof -
  from assms(1) have c: "context_available pf s"
    by (simp add: setAudioMode_fst split: if_splits)
  from assms(2) have x: "x \<in> set (connectedSources s)"
    by (simp add: setAudioMode_fields(2))
  have "\<not> rewire_fails pf m (panner_available pf s) x \<longrightarrow>
            reaches_output m (snd (setAudioMode pf m s)) x"
    using setAudioMode_reaches [OF c x] by blast
  moreover have "\<not> disconnect_fails pf (Source x) \<longrightarrow>
          outputs (snd (setAudioMode pf m s)) (Source x)
            \<subseteq> (if m = ''stereopanner'' then {Panner} else {Destination})"
  proof
    assume "\<not> disconnect_fails pf (Source x)"
    from setAudioMode_source_outputs [OF c x this, of m]
    show "outputs (snd (setAudioMode pf m s)) (Source x)
            \<subseteq> (if m = ''stereopanner'' then {Panner} else {Destination})"
      by (simp add: wire_edges_def)
  qed
  moreover have "\<not> disconnect_fails pf (Source x) \<longrightarrow>
          \<not> rewire_fails pf m (panner_available pf s) x \<longrightarrow>
          wired_as m (snd (setAudioMode pf m s)) x"
    using setAudioMode_wired [OF c x] by blast
  ultimately show ?thesis by blast
qed

lemma three_sources_fields:
  "audioContext three_sources" "connectedSources three_sources = [0, 1, 2]"
  "currentAudioMode three_sources = ''default''"
  "stereoPannerNode three_sources = None"
  "outputs three_sources (Source 0) = {Destination}"
  "outputs three_sources (Source 1) = {}"
  "outputs three_sources (Source 2) = {Destination}"
  by (simp_all add: three_sources_def run_def connectAudioSource_fields wire_edges_def
      connectAudioSource_panner(2)
      context_available_def foreign_source_platform_def ok_platform_def init_engine_def)

lemma stuck_pair_fields:
  "audioContext stuck_pair" "connectedSources stuck_pair = [0, 1]"
  "currentAudioMode stuck_pair = ''stereopanner''"
  "outputs stuck_pair (Source 0) = {Panner}"
  "outputs stuck_pair (Source 1) = {Panner}"
  by (simp_all add: stuck_pair_def run_def connectAudioSource_fields setAudioMode_fields
      wire_edges_def clearable_def
      context_available_def panner_available_def stuck_source_platform_def ok_platform_def
      init_engine_def)

theorem setAudioMode_rewires_every_sound_source_witness:
  "fst (setAudioMode stuck_source_platform ''default'' stuck_pair) = Inr ()
   \<and> 0 \<in> set (connectedSources (snd (setAudioMode stuck_source_platform ''default'' stuck_pair)))
   \<and> disconnect_fails stuck_source_platform (Source 0)
   \<and> \<not> rewire_fails stuck_source_platform ''default''
         (panner_available stuck_source_platform stuck_pair) 0
   \<and> reaches_output ''default'' (snd (setAudioMode stuck_source_platform ''default'' stuck_pair)) 0
   \<and> fst (setAudioMode foreign_source_platform ''stereopanner'' three_sources) = Inr ()
   \<and> 1 \<in> set (connectedSources (snd (setAudioMode foreign_source_platform ''stereopanner'' three_sources)))
   \<and> rewire_fails foreign_source_platform ''stereopanner''
        (panner_available foreign_source_platform three_sources) 1
   \<and> \<not> disconnect_fails foreign_source_platform (Source 1)
   \<and> outputs (snd (setAudioMode foreign_source_platform ''stereopanner'' three_sources)) (Source 1)
        \<subseteq> {Panner}
   \<and> 2 \<in> set (connectedSources (snd (setAudioMode foreign_source_platform ''stereopanner'' three_sources)))
   \<and> \<not> disconnect_fails foreign_source_platform (Source 2)
   \<and> \<not> rewire_fails foreign_source_platform ''stereopanner''
         (panner_available foreign_source_platform three_sources) 2
   \<and> wired_as ''stereopanner''
        (snd (setAudioMode foreign_source_platform ''stereopanner'' three_sources)) 2"
proof -
  have a: "fst (setAudioMode stuck_source_platform ''default'' stuck_pair) = Inr ()"
    "0 \<in> set (connectedSources (snd (setAudioMode stuck_source_platform ''default'' stuck_pair)))"
    "disconnect_fails stuck_source_platform (Source 0)"
    "\<not> rewire_fails stuck_source_platform ''default''
         (panner_available stuck_source_platform stuck_pair) 0"
    by (simp_all add: setAudioMode_fst setAudioMode_fields(2) stuck_pair_fields
        context_available_def rewire_fails_def stuck_source_platform_def ok_platform_def)
  have b: "fst (setAudioMode foreign_source_platform ''stereopanner'' three_sources) = Inr ()"
    "1 \<in> set (connectedSources (snd (setAudioMode foreign_source_platform ''stereopanner'' three_sources)))"
    "2 \<in> set (connectedSources (snd (setAudioMode foreign_source_platform ''stereopanner'' three_sources)))"
    "rewire_fails foreign_source_platform ''stereopanner''
        (panner_available foreign_source_platform three_sources) 1"
    "\<not> disconnect_fails foreign_source_platform (Source 1)"
    "\<not> disconnect_fails foreign_source_platform (Source 2)"
    "\<not> rewire_fails foreign_source_platform ''stereopanner''
         (panner_available foreign_source_platform three_sources) 2"
    by (simp_all add: setAudioMode_fst setAudioMode_fields(2) three_sources_fields
        context_available_def rewire_fails_def panner_available_def
        foreign_source_platform_def ok_platform_def)
  from setAudioMode_rewires_every_sound_source [OF a(1,2)] a(4)
  have 1: "reaches_output ''default'' (snd (setAudioMode stuck_source_platform ''default'' stuck_pair)) 0"
    by blast
  from setAudioMode_rewires_every_sound_source [OF b(1,2)] b(5)
  have 2: "outputs (snd (setAudioMode foreign_source_platform ''stereopanner'' three_sources)) (Source 1)
        \<subseteq> {Panner}" by simp
  from setAudioMode_rewires_every_sound_source [OF b(1,3)] b(6,7)
  have 3: "wired_as ''stereopanner''
        (snd (setAudioMode foreign_source_platform ''stereopanner'' three_sources)) 2" by blast
  from a b 1 2 3 show ?thesis by blast
qed

theorem setAudioMode_leaves_failed_source_unwired:
  "fst (setAudioMode foreign_source_platform ''default'' three_sources) = Inr ()
   \<and> 1 \<in> set (connectedSources (snd (setAudioMode foreign_source_platform ''default'' three_sources)))
   \<and> outputs (snd (setAudioMode foreign_source_platform ''default'' three_sources)) (Source 1) = {}
   \<and> \<not> wired_as ''default'' (snd (setAudioMode foreign_source_platform ''default'' three_sources)) 1"
  by (simp add: setAudioMode_fst setAudioMode_fields three_sources_fields wired_as_def
      context_available_def clearable_def wire_edges_def
      foreign_source_platform_def ok_platform_def)

section \<open>An unknown mode\<close>

lemma wire_edges_unknown:
  "m \<noteq> ''stereopanner'' \<Longrightarrow> wire_edges pf m a x n = wire_edges pf ''default'' a x n"
  by (simp add: wire_edges_def)

lemma setAudioMode_unknown_outputs:
  assumes "m \<noteq> ''stereopanner''"
  shows "outputs (snd (setAudioMode pf m s)) = outputs (snd (setAudioMode pf ''default'' s))"
proof
  fix n
  show "outputs (snd (setAudioMode pf m s)) n = outputs (snd (setAudioMode pf ''default'' s)) n"
    by (simp only: setAudioMode_fields(8) wire_edges_unknown [OF assms])
qed

lemma handleSoundOptionChange_alt:
  "handleSoundOptionChange pf m s =
     (Inr (),
      (case fst (setAudioMode pf m (say Info (SoundOptionChanging (currentAudioMode s) m) s)) of
         Inl e \<Rightarrow>
           say Error (SoundOptionFailed e)
             (snd (setAudioMode pf m (say Info (SoundOptionChanging (currentAudioMode s) m) s)))
       | Inr _ \<Rightarrow>
           if m = ''default'' \<or> m = ''stereopanner'' \<or> m = ''equalpower'' \<or> m = ''hrtf''
             then say Info (SoundOptionActivated m)
                    (snd (setAudioMode pf m (say Info (SoundOptionChanging (currentAudioMode s) m) s)))
           else say Warn (SoundOptionUnknown m)
                  (snd (setAudioMode pf m (say Info (SoundOptionChanging (currentAudioMode s) m) s)))))"
  by (auto simp: handleSoundOptionChange_def getCurrentAudioMode_def Let_def
      split: prod.splits sum.splits)

lemma handleSoundOptionChange_snd:
  "\<exists>l msg. snd (handleSoundOptionChange pf m s) =
      say l msg (snd (setAudioMode pf m (say Info (SoundOptionChanging (currentAudioMode s) m) s)))"
  by (cases "fst (setAudioMode pf m (say Info (SoundOptionChanging (currentAudioMode s) m) s))")
     (auto simp: handleSoundOptionChange_alt)

lemma handleSoundOptionChange_outputs:
  "outputs (snd (handleSoundOptionChange pf m s)) = outputs (snd (setAudioMode pf m s))"
proof
  fix n
  have "outputs (snd (setAudioMode pf m (say Info (SoundOptionChanging (currentAudioMode s) m) s))) n
        = outputs (snd (setAudioMode pf m s)) n"
    by (simp only: setAudioMode_fields(8) disconnect_frame(4,5) say_fields(4,5)
        panner_available_frame(1))
  moreover obtain l msg where "snd (handleSoundOptionChange pf m s) =
      say l msg (snd (setAudioMode pf m (say Info (SoundOptionChanging (currentAudioMode s) m) s)))"
    using handleSoundOptionChange_snd by blast
  ultimately
  show "outputs (snd (handleSoundOptionChange pf m s)) n = outputs (snd (setAudioMode pf m s)) n"
    by (simp only: say_fields(5))
qed

lemma other_warnings_say:
  "other_warnings (say l msg s) =
     other_warnings s @ (if loop_or_no_warning (l, msg) then [] else [(l, msg)])"
  by (simp add: other_warnings_def)

lemma warnings_split:
  "length (filter is_warning xs) =
     length (filter (\<lambda>e. \<not> loop_or_no_warning e) xs)
       + length (filter is_reconnect_warning xs) + length (filter is_disconnect_warning xs)"
proof (induction xs)
  case Nil
  show ?case by simp
next
  case (Cons e xs)
  obtain l msg where e: "e = (l, msg)" by (cases e)
  have "(if is_warning e then 1 else 0) =
        (if \<not> loop_or_no_warning e then 1 else 0)
          + (if is_reconnect_warning e then 1 else 0)
          + (if is_disconnect_warning e then (1::nat) else 0)"
    unfolding e by (cases l; cases msg) (simp_all add: loop_or_no_warning_def)
  with Cons.IH show ?case by (simp split: if_splits)
qed

lemma setAudioMode_warnings:
  "length (warnings (snd (setAudioMode pf m s))) =
     length (warnings s)
       + length (filter (\<lambda>x. disconnect_fails pf (Source x)) (connectedSources s))
       + (if context_available pf s
          then length (filter (rewire_fails pf m (panner_available pf s)) (connectedSources s))
          else 0)"
  using warnings_split [of "logged (snd (setAudioMode pf m s))"] warnings_split [of "logged s"]
    setAudioMode_other_warnings [of pf m s] setAudioMode_fields(6,7) [of pf m s]
  by (simp add: warnings_def other_warnings_def reconnect_warnings_def disconnect_warnings_def)


lemma one_source_fields:
  "audioContext one_source" "connectedSources one_source = [0]"
  "currentAudioMode one_source = ''default''"
  "outputs one_source (Source 0) = {Destination}"
  by (simp_all add: one_source_def run_def connectAudioSource_fields wire_edges_def
      context_available_def ok_platform_def init_engine_def)



section \<open>Failures inside the two loops of a mode change\<close>

text \<open>No source is tracked before the context exists, whatever the calls.\<close>

lemma through_panner_context:
  "audioContext (snd (connectAudioThroughStereoPanner pf x v s)) = context_available pf s"
  "\<not> context_available pf s \<Longrightarrow>
     connectedSources (snd (connectAudioThroughStereoPanner pf x v s)) = connectedSources s"
  by (auto simp: connectAudioThroughStereoPanner_def getAudioContext_def
      getStereoPannerNode_def context_available_def Let_def split: option.splits)

lemma handleSoundOptionChange_fields:
  "audioContext (snd (handleSoundOptionChange pf m s)) = context_available pf s"
  "connectedSources (snd (handleSoundOptionChange pf m s)) = connectedSources s"
proof -
  obtain l msg where h: "snd (handleSoundOptionChange pf m s) =
      say l msg (snd (setAudioMode pf m (say Info (SoundOptionChanging (currentAudioMode s) m) s)))"
    using handleSoundOptionChange_snd by blast
  show "audioContext (snd (handleSoundOptionChange pf m s)) = context_available pf s"
    by (simp add: h setAudioMode_fields(3))
  show "connectedSources (snd (handleSoundOptionChange pf m s)) = connectedSources s"
    by (simp add: h setAudioMode_fields(2))
qed

lemma exec_tracked_needs_context:
  assumes "connectedSources s = [] \<or> audioContext s"
  shows "connectedSources (exec pf c s) = [] \<or> audioContext (exec pf c s)"
proof (cases "context_available pf s")
  case True
  then show ?thesis
    by (cases c)
       (simp_all add: through_panner_context setAudioMode_fields(3)
          connectAudioSource_fields(2) handleSoundOptionChange_fields assms)
next
  case False
  with assms have "connectedSources s = []" by (auto simp: context_available_def)
  with False show ?thesis
    by (cases c)
       (simp_all add: through_panner_context setAudioMode_fields(2)
          connectAudioSource_fields(3) handleSoundOptionChange_fields)
qed

lemma run_tracked_needs_context:
  "connectedSources s = [] \<or> audioContext s \<Longrightarrow>
   connectedSources (run pf cs s) = [] \<or> audioContext (run pf cs s)"
  unfolding run_def
proof (induction cs arbitrary: s)
  case Nil
  then show ?case by simp
next
  case (Cons c cs)
  from Cons.IH [OF exec_tracked_needs_context [OF Cons.prems, of pf c]] show ?case by simp
qed

lemma tracked_needs_context:
  "connectedSources (run pf cs init_engine) \<noteq> [] \<Longrightarrow> context_available pf (run pf cs init_engine)"
  using run_tracked_needs_context [of init_engine pf cs]
  by (auto simp: init_engine_def context_available_def)

lemma connectAudioSource_warnings:
  "reconnect_warnings (snd (connectAudioSource pf x s)) = reconnect_warnings s"
  "disconnect_warnings (snd (connectAudioSource pf x s)) = disconnect_warnings s"
  by (auto simp: connectAudioSource_alt through_panner_more(1,2) split: sum.splits)

text \<open>
  C3. In the reconnection loop of \<^verbatim>\<open>setAudioMode\<close> a source whose wiring step throws
  costs one warning in the log and nothing else: the call returns normally whenever the
  context is there or can be created, the log gains exactly one reconnection warning for
  each tracked source whose wiring step throws, and every tracked source whose wiring step
  does not throw has the connections of the mode's rule afterwards, wherever it stands in
  the set. The only error that \<^verbatim>\<open>setAudioMode\<close> lets through is the failure to create
  the context, raised before the loop starts; in a state reached by calls from the initial
  one, the context exists as soon as one source is tracked, and then the call returns
  normally.
\<close>

theorem reconnect_failure_is_isolated:
  "(fst (setAudioMode pf m s) = Inl e \<longrightarrow> e = AudioInitError \<and> \<not> context_available pf s)
   \<and> (context_available pf s \<longrightarrow>
        fst (setAudioMode pf m s) = Inr ()
        \<and> reconnect_warnings (snd (setAudioMode pf m s)) =
            reconnect_warnings s
              + length (filter (rewire_fails pf m (panner_available pf s)) (connectedSources s))
        \<and> (\<forall>x\<in>set (connectedSources s).
              \<not> rewire_fails pf m (panner_available pf s) x \<longrightarrow>
              reaches_output m (snd (setAudioMode pf m s)) x))
   \<and> (connectedSources (run pf cs init_engine) \<noteq> [] \<longrightarrow>
        fst (setAudioMode pf m (run pf cs init_engine)) = Inr ())"
proof (intro conjI impI ballI)
  assume "connectedSources (run pf cs init_engine) \<noteq> []"
  then have "context_available pf (run pf cs init_engine)" by (rule tracked_needs_context)
  then show "fst (setAudioMode pf m (run pf cs init_engine)) = Inr ()"
    by (simp add: setAudioMode_fst)
next
  assume "fst (setAudioMode pf m s) = Inl e"
  then show "e = AudioInitError" "\<not> context_available pf s"
    by (simp_all add: setAudioMode_fst split: if_splits)
next
  assume c: "context_available pf s"
  then show "fst (setAudioMode pf m s) = Inr ()" by (simp add: setAudioMode_fst)
  from c show "reconnect_warnings (snd (setAudioMode pf m s)) =
            reconnect_warnings s
              + length (filter (rewire_fails pf m (panner_available pf s)) (connectedSources s))"
    by (simp add: setAudioMode_fields(7))
  fix x assume "x \<in> set (connectedSources s)" "\<not> rewire_fails pf m (panner_available pf s) x"
  with c show "reaches_output m (snd (setAudioMode pf m s)) x" by (rule setAudioMode_reaches)
qed

theorem reconnect_failure_is_isolated_witness:
  "context_available foreign_source_platform three_sources
   \<and> connectedSources three_sources = [0, 1, 2]
   \<and> rewire_fails foreign_source_platform ''default''
        (panner_available foreign_source_platform three_sources) 1
   \<and> fst (setAudioMode foreign_source_platform ''default'' three_sources) = Inr ()
   \<and> reconnect_warnings (snd (setAudioMode foreign_source_platform ''default'' three_sources)) =
        reconnect_warnings three_sources + 1
   \<and> reaches_output ''default'' (snd (setAudioMode foreign_source_platform ''default'' three_sources)) 0
   \<and> reaches_output ''default'' (snd (setAudioMode foreign_source_platform ''default'' three_sources)) 2"
  using reconnect_failure_is_isolated
    [where pf = foreign_source_platform and m = "''default''" and s = three_sources
       and e = AudioInitError
       and cs = "[ConnectAudioSource 0, ConnectAudioSource 1, ConnectAudioSource 2]",
     folded three_sources_def]
  by (simp add: three_sources_fields context_available_def rewire_fails_def
      foreign_source_platform_def ok_platform_def)

text \<open>
  C10. The disconnection loop treats a throwing \<^verbatim>\<open>disconnect()\<close> the same way: the log
  gains exactly one disconnection warning for each tracked source whose
  \<^verbatim>\<open>disconnect()\<close> throws, that source keeps the connections it had, the mode is set to
  the new one all the same, and the reconnection loop still runs over every tracked
  source: each one whose wiring step does not throw has the connections of the new mode's
  rule, each one whose wiring step throws has its warning. The reconnection loop needs the
  context, which exists in every state reached by calls from the initial one as soon as a
  source is tracked.
\<close>

theorem disconnect_failure_is_isolated:
  "currentAudioMode (snd (setAudioMode pf m s)) = m
   \<and> disconnect_warnings (snd (setAudioMode pf m s)) =
       disconnect_warnings s
         + length (filter (\<lambda>x. disconnect_fails pf (Source x)) (connectedSources s))
   \<and> (\<forall>x\<in>set (connectedSources s).
         disconnect_fails pf (Source x) \<longrightarrow>
         outputs s (Source x) \<subseteq> outputs (snd (setAudioMode pf m s)) (Source x))
   \<and> (context_available pf s \<longrightarrow>
        fst (setAudioMode pf m s) = Inr ()
        \<and> reconnect_warnings (snd (setAudioMode pf m s)) =
            reconnect_warnings s
              + length (filter (rewire_fails pf m (panner_available pf s)) (connectedSources s))
        \<and> (\<forall>x\<in>set (connectedSources s).
              \<not> rewire_fails pf m (panner_available pf s) x \<longrightarrow>
              reaches_output m (snd (setAudioMode pf m s)) x))
   \<and> (\<forall>x\<in>set (connectedSources (run pf cs init_engine)).
         \<not> rewire_fails pf m (panner_available pf (run pf cs init_engine)) x \<longrightarrow>
         reaches_output m (snd (setAudioMode pf m (run pf cs init_engine))) x)"
proof (intro conjI impI ballI)
  fix x
  assume x: "x \<in> set (connectedSources (run pf cs init_engine))"
    "\<not> rewire_fails pf m (panner_available pf (run pf cs init_engine)) x"
  from x(1) have "connectedSources (run pf cs init_engine) \<noteq> []" by auto
  then have "context_available pf (run pf cs init_engine)" by (rule tracked_needs_context)
  then show "reaches_output m (snd (setAudioMode pf m (run pf cs init_engine))) x"
    using x by (rule setAudioMode_reaches)
next
  show "currentAudioMode (snd (setAudioMode pf m s)) = m" by (rule setAudioMode_fields(1))
  show "disconnect_warnings (snd (setAudioMode pf m s)) =
       disconnect_warnings s
         + length (filter (\<lambda>x. disconnect_fails pf (Source x)) (connectedSources s))"
    by (rule setAudioMode_fields(6))
next
  fix x assume "x \<in> set (connectedSources s)" "disconnect_fails pf (Source x)"
  then have "\<not> clearable pf s (Source x)" by (simp add: clearable_def)
  then show "outputs s (Source x) \<subseteq> outputs (snd (setAudioMode pf m s)) (Source x)"
    by (simp only: setAudioMode_fields(8) if_False Un_upper1)
next
  assume c: "context_available pf s"
  then show "fst (setAudioMode pf m s) = Inr ()" by (simp add: setAudioMode_fst)
  from c show "reconnect_warnings (snd (setAudioMode pf m s)) =
            reconnect_warnings s
              + length (filter (rewire_fails pf m (panner_available pf s)) (connectedSources s))"
    by (simp add: setAudioMode_fields(7))
  fix x assume "x \<in> set (connectedSources s)" "\<not> rewire_fails pf m (panner_available pf s) x"
  with c show "reaches_output m (snd (setAudioMode pf m s)) x" by (rule setAudioMode_reaches)
qed

theorem disconnect_failure_is_isolated_witness:
  "context_available stuck_source_platform stuck_pair
   \<and> connectedSources stuck_pair = [0, 1]
   \<and> disconnect_fails stuck_source_platform (Source 0)
   \<and> currentAudioMode (snd (setAudioMode stuck_source_platform ''default'' stuck_pair)) = ''default''
   \<and> disconnect_warnings (snd (setAudioMode stuck_source_platform ''default'' stuck_pair)) =
        disconnect_warnings stuck_pair + 1
   \<and> Panner \<in> outputs (snd (setAudioMode stuck_source_platform ''default'' stuck_pair)) (Source 0)
   \<and> fst (setAudioMode stuck_source_platform ''default'' stuck_pair) = Inr ()
   \<and> reaches_output ''default'' (snd (setAudioMode stuck_source_platform ''default'' stuck_pair)) 0
   \<and> reaches_output ''default'' (snd (setAudioMode stuck_source_platform ''default'' stuck_pair)) 1"
  using disconnect_failure_is_isolated
    [where pf = stuck_source_platform and m = "''default''" and s = stuck_pair
       and cs = "[SetAudioMode ''stereopanner'', ConnectAudioSource 0, ConnectAudioSource 1]",
     folded stuck_pair_def]
  by (simp add: stuck_pair_fields context_available_def rewire_fails_def
      stuck_source_platform_def ok_platform_def)

section \<open>Connecting a source\<close>

lemma connectAudioSource_reaches:
  assumes "context_available pf s"
    "\<not> rewire_fails pf (currentAudioMode s) (panner_available pf s) x"
  shows "reaches_output (currentAudioMode s) (snd (connectAudioSource pf x s)) x"
proof (cases "currentAudioMode s = ''stereopanner''")
  case True
  with assms(2) have "wire_edges pf (currentAudioMode s) (panner_available pf s) x (Source x) = {Panner}"
    "wire_edges pf (currentAudioMode s) (panner_available pf s) x Panner = {Destination}"
    by (simp_all add: wire_edges_own)
  with assms(1) True show ?thesis
    by (simp add: reaches_output_def connectAudioSource_fields(6))
next
  case False
  with assms(2) have "wire_edges pf (currentAudioMode s) (panner_available pf s) x (Source x) = {Destination}"
    by (simp add: wire_edges_own)
  with assms(1) False show ?thesis
    by (simp add: reaches_output_def connectAudioSource_fields(6))
qed

lemma connectAudioSource_tracks:
  "context_available pf s \<Longrightarrow> x \<in> set (connectedSources (snd (connectAudioSource pf x s)))"
  "distinct (connectedSources s) \<Longrightarrow> distinct (connectedSources (snd (connectAudioSource pf x s)))"
  "x \<in> set (connectedSources s) \<Longrightarrow>
     connectedSources (snd (connectAudioSource pf x s)) = connectedSources s"
  "context_available pf (snd (connectAudioSource pf x s)) = context_available pf s"
  by (simp_all add: connectAudioSource_fields context_available_def)

lemma count_list_distinct: "distinct xs \<Longrightarrow> x \<in> set xs \<Longrightarrow> count_list xs x = 1"
  by (induction xs) auto

lemma through_panner_distinct:
  "distinct (connectedSources s) \<Longrightarrow>
   distinct (connectedSources (snd (connectAudioThroughStereoPanner pf x v s)))"
  by (auto simp: connectAudioThroughStereoPanner_def getAudioContext_def
      getStereoPannerNode_def Let_def split: option.splits)

lemma exec_distinct:
  "distinct (connectedSources s) \<Longrightarrow> distinct (connectedSources (exec pf c s))"
  by (cases c)
     (simp_all add: through_panner_distinct setAudioMode_fields(2) connectAudioSource_tracks(2)
        handleSoundOptionChange_fields(2))

lemma run_distinct: "distinct (connectedSources (run pf cs init_engine))"
proof -
  have "\<And>s. distinct (connectedSources s) \<Longrightarrow> distinct (connectedSources (fold (exec pf) cs s))"
    by (induction cs) (simp_all add: exec_distinct)
  then show ?thesis by (simp add: run_def init_engine_def)
qed

text \<open>
  C6, as the code has it. \<^verbatim>\<open>connectAudioSource\<close> asks for the context before it touches
  the set. When the context is there or can be created, two calls with the same source
  leave the source in the set exactly once. When it cannot be created, both calls throw
  the error of the context and leave the set as it was. In either case the second call
  does not change the set, which has no duplicates if it had none, as it has none in any
  state reached by calls from the initial one. The wiring step runs in every call that
  gets the context: a call for a source that is tracked already, in any state, leaves the
  set as it is and, unless the wiring step throws, leaves the source with the connections
  of the current mode's rule.
\<close>

theorem connectAudioSource_twice_tracks_once:
  assumes "distinct (connectedSources s)"
  shows "(context_available pf s \<longrightarrow>
            count_list (connectedSources (snd (connectAudioSource pf x (snd (connectAudioSource pf x s))))) x = 1)
    \<and> (\<not> context_available pf s \<longrightarrow>
          fst (connectAudioSource pf x s) = Inl AudioInitError
          \<and> fst (connectAudioSource pf x (snd (connectAudioSource pf x s))) = Inl AudioInitError
          \<and> connectedSources (snd (connectAudioSource pf x (snd (connectAudioSource pf x s)))) =
              connectedSources s)
    \<and> connectedSources (snd (connectAudioSource pf x (snd (connectAudioSource pf x s)))) =
        connectedSources (snd (connectAudioSource pf x s))
    \<and> distinct (connectedSources (snd (connectAudioSource pf x (snd (connectAudioSource pf x s)))))
    \<and> (x \<in> set (connectedSources t) \<longrightarrow> context_available pf t \<longrightarrow>
         connectedSources (snd (connectAudioSource pf x t)) = connectedSources t
         \<and> (\<not> rewire_fails pf (currentAudioMode t) (panner_available pf t) x \<longrightarrow>
              reaches_output (currentAudioMode t) (snd (connectAudioSource pf x t)) x))
    \<and> distinct (connectedSources (run pf cs init_engine))"
proof -
  let ?s1 = "snd (connectAudioSource pf x s)"
  let ?s2 = "snd (connectAudioSource pf x ?s1)"
  have d1: "distinct (connectedSources ?s1)" using assms by (rule connectAudioSource_tracks(2))
  have d2: "distinct (connectedSources ?s2)" using d1 by (rule connectAudioSource_tracks(2))
  have c1: "context_available pf ?s1 = context_available pf s"
    by (rule connectAudioSource_tracks(4))
  have same: "connectedSources ?s2 = connectedSources ?s1"
  proof (cases "context_available pf s")
    case True
    then have "x \<in> set (connectedSources ?s1)" by (rule connectAudioSource_tracks(1))
    then show ?thesis by (rule connectAudioSource_tracks(3))
  next
    case False
    with c1 show ?thesis by (simp add: connectAudioSource_fields(3))
  qed
  have alive: "context_available pf s \<longrightarrow> count_list (connectedSources ?s2) x = 1"
  proof
    assume "context_available pf s"
    then have "x \<in> set (connectedSources ?s1)" by (rule connectAudioSource_tracks(1))
    with d1 same show "count_list (connectedSources ?s2) x = 1"
      by (simp add: count_list_distinct)
  qed
  have dead: "\<not> context_available pf s \<longrightarrow>
          fst (connectAudioSource pf x s) = Inl AudioInitError
          \<and> fst (connectAudioSource pf x ?s1) = Inl AudioInitError
          \<and> connectedSources ?s2 = connectedSources s"
    using c1 same
    by (simp add: connectAudioSource_fst(2) connectAudioSource_fields(3))
  have again: "x \<in> set (connectedSources t) \<longrightarrow> context_available pf t \<longrightarrow>
         connectedSources (snd (connectAudioSource pf x t)) = connectedSources t
         \<and> (\<not> rewire_fails pf (currentAudioMode t) (panner_available pf t) x \<longrightarrow>
              reaches_output (currentAudioMode t) (snd (connectAudioSource pf x t)) x)"
    using connectAudioSource_tracks(3) [of x t pf] connectAudioSource_reaches [of pf t x]
    by blast
  from alive dead same d2 again run_distinct [of pf cs] show ?thesis by blast
qed

theorem connectAudioSource_twice_tracks_once_witness:
  "distinct (connectedSources init_engine) \<and> context_available ok_platform init_engine
   \<and> count_list (connectedSources
        (snd (connectAudioSource ok_platform 0 (snd (connectAudioSource ok_platform 0 init_engine))))) 0
      = 1
   \<and> connectedSources
        (snd (connectAudioSource ok_platform 0 (snd (connectAudioSource ok_platform 0 init_engine)))) = [0]
   \<and> 0 \<in> set (connectedSources (disconnect (Source 0) one_source))
   \<and> outputs (disconnect (Source 0) one_source) (Source 0) = {}
   \<and> reaches_output ''default''
        (snd (connectAudioSource ok_platform 0 (disconnect (Source 0) one_source))) 0
   \<and> \<not> context_available dead_platform init_engine
   \<and> connectedSources
        (snd (connectAudioSource dead_platform 0 (snd (connectAudioSource dead_platform 0 init_engine)))) = []"
proof -
  have d: "distinct (connectedSources init_engine)" by (simp add: init_engine_def)
  have c: "context_available ok_platform init_engine"
    by (simp add: context_available_def ok_platform_def)
  have n: "\<not> context_available dead_platform init_engine"
    by (simp add: context_available_def dead_platform_def ok_platform_def init_engine_def)
  have t: "0 \<in> set (connectedSources (disconnect (Source 0) one_source))"
    "context_available ok_platform (disconnect (Source 0) one_source)"
    "\<not> rewire_fails ok_platform (currentAudioMode (disconnect (Source 0) one_source))
         (panner_available ok_platform (disconnect (Source 0) one_source)) 0"
    "currentAudioMode (disconnect (Source 0) one_source) = ''default''"
    "outputs (disconnect (Source 0) one_source) (Source 0) = {}"
    by (simp_all add: one_source_fields context_available_def rewire_fails_def ok_platform_def)
  note w = connectAudioSource_twice_tracks_once
    [OF d, of ok_platform 0 "disconnect (Source 0) one_source" "[]"]
  note v = connectAudioSource_twice_tracks_once [OF d, of dead_platform 0 init_engine "[]"]
  from w c have 1: "count_list (connectedSources
        (snd (connectAudioSource ok_platform 0 (snd (connectAudioSource ok_platform 0 init_engine))))) 0
      = 1" by blast
  from w have "connectedSources
        (snd (connectAudioSource ok_platform 0 (snd (connectAudioSource ok_platform 0 init_engine)))) =
      connectedSources (snd (connectAudioSource ok_platform 0 init_engine))" by blast
  then have 2: "connectedSources
        (snd (connectAudioSource ok_platform 0 (snd (connectAudioSource ok_platform 0 init_engine)))) = [0]"
    using c by (simp add: connectAudioSource_fields(3) init_engine_def)
  from w t(1-3)
  have 3: "reaches_output (currentAudioMode (disconnect (Source 0) one_source))
        (snd (connectAudioSource ok_platform 0 (disconnect (Source 0) one_source))) 0" by blast
  from v n have "connectedSources
        (snd (connectAudioSource dead_platform 0 (snd (connectAudioSource dead_platform 0 init_engine)))) =
      connectedSources init_engine" by blast
  then have 4: "connectedSources
        (snd (connectAudioSource dead_platform 0 (snd (connectAudioSource dead_platform 0 init_engine)))) = []"
    by (simp add: init_engine_def)
  from 1 2 3 4 show ?thesis using d c n t by simp
qed

theorem connectAudioSource_without_context_tracks_nothing:
  "fst (connectAudioSource dead_platform 0 init_engine) = Inl AudioInitError
   \<and> fst (connectAudioSource dead_platform 0 (snd (connectAudioSource dead_platform 0 init_engine)))
       = Inl AudioInitError
   \<and> connectedSources
        (snd (connectAudioSource dead_platform 0 (snd (connectAudioSource dead_platform 0 init_engine))))
       = []
   \<and> count_list (connectedSources
        (snd (connectAudioSource dead_platform 0 (snd (connectAudioSource dead_platform 0 init_engine))))) 0
       \<noteq> 1"
  by (simp add: connectAudioSource_def getAudioContext_def say_def dead_platform_def
      ok_platform_def init_engine_def)

lemma through_panner_refused:
  "audioContext s \<Longrightarrow> panner_available pf s \<Longrightarrow> connect_fails pf (Source x) Panner \<Longrightarrow>
   fst (connectAudioThroughStereoPanner pf x v s) = Inl (ConnectionError (Source x) Panner)"
  by (auto simp: connectAudioThroughStereoPanner_def getAudioContext_there
      getStereoPannerNode_def panner_available_def split: option.splits)

lemma connectAudioSource_refused:
  assumes "context_available pf s" "currentAudioMode s = ''stereopanner''"
    "panner_available pf s" "connect_fails pf (Source x) Panner"
  shows "fst (connectAudioSource pf x s) = Inl (ConnectionError (Source x) Panner)"
proof -
  have "fst (connectAudioThroughStereoPanner pf x 0 (add_source x (snd (getAudioContext pf s))))
        = Inl (ConnectionError (Source x) Panner)"
    using assms(1,3,4) by (intro through_panner_refused) simp_all
  then show ?thesis using assms(1,2) by (simp add: connectAudioSource_alt)
qed

lemma panner_mode_fields:
  "audioContext panner_mode" "connectedSources panner_mode = []"
  "currentAudioMode panner_mode = ''stereopanner''"
  by (simp_all add: panner_mode_def run_def setAudioMode_fields context_available_def
      panner_refusing_platform_def ok_platform_def init_engine_def)



section \<open>A mode change to the current mode\<close>

lemma consistentI:
  assumes "\<not> audioContext s \<Longrightarrow> connectedSources s = [] \<and> stereoPannerNode s = None"
    and "stereoPannerNode s = None \<Longrightarrow> outputs s Panner = {}"
    and "\<And>x. x \<notin> set (connectedSources s) \<Longrightarrow> outputs s (Source x) = {}"
    and "\<And>n. rule_edges pf s n \<subseteq> outputs s n"
    and "\<And>n. clearable pf s n \<Longrightarrow> outputs s n \<subseteq> rule_edges pf s n"
  shows "consistent pf s"
  using assms unfolding consistent_def by blast

lemma consistentD:
  assumes "consistent pf s"
  shows "\<not> audioContext s \<Longrightarrow> connectedSources s = []"
    and "\<not> audioContext s \<Longrightarrow> stereoPannerNode s = None"
    and "stereoPannerNode s = None \<Longrightarrow> outputs s Panner = {}"
    and "x \<notin> set (connectedSources s) \<Longrightarrow> outputs s (Source x) = {}"
    and "rule_edges pf s n \<subseteq> outputs s n"
    and "clearable pf s n \<Longrightarrow> outputs s n \<subseteq> rule_edges pf s n"
  using assms unfolding consistent_def by blast+

lemma clearable_cases:
  assumes "clearable pf s' n" "set (connectedSources s') \<subseteq> insert x (set (connectedSources s))"
  shows "clearable pf s n
         \<or> (n = Source x \<and> x \<notin> set (connectedSources s))
         \<or> (n = Panner \<and> stereoPannerNode s = None)"
  using assms by (cases n) (auto simp: clearable_def)

lemma consistent_init: "consistent pf init_engine"
  by (rule consistentI) (simp_all add: init_engine_def rule_edges_def clearable_def split: node.splits)

text \<open>Calls that leave the graph, the set and the mode alone.\<close>

lemma consistent_frame:
  assumes c: "consistent pf s"
    and f: "connectedSources s' = connectedSources s" "currentAudioMode s' = currentAudioMode s"
      "outputs s' = outputs s" "panner_available pf s' = panner_available pf s"
    and p: "stereoPannerNode s' = None \<Longrightarrow> stereoPannerNode s = None"
    and a: "\<not> audioContext s' \<Longrightarrow>
              \<not> audioContext s \<and> (stereoPannerNode s = None \<longrightarrow> stereoPannerNode s' = None)"
  shows "consistent pf s'"
proof (rule consistentI)
  assume "\<not> audioContext s'"
  with a consistentD(1,2) [OF c] f(1)
  show "connectedSources s' = [] \<and> stereoPannerNode s' = None" by simp
next
  assume "stereoPannerNode s' = None"
  with p consistentD(3) [OF c] f(3) show "outputs s' Panner = {}" by simp
next
  fix x assume "x \<notin> set (connectedSources s')"
  with consistentD(4) [OF c, of x] f(1,3) show "outputs s' (Source x) = {}" by simp
next
  fix n
  have r: "rule_edges pf s' n = rule_edges pf s n" by (simp add: rule_edges_def f)
  with consistentD(5) [OF c, of n] f(3) show "rule_edges pf s' n \<subseteq> outputs s' n" by simp
  assume "clearable pf s' n"
  with f(1)
  have "clearable pf s n \<or> (n = Panner \<and> stereoPannerNode s = None)"
    by (cases n) (auto simp: clearable_def)
  then show "outputs s' n \<subseteq> rule_edges pf s' n"
  proof
    assume "clearable pf s n"
    with consistentD(6) [OF c, of n] r f(3) show ?thesis by simp
  next
    assume "n = Panner \<and> stereoPannerNode s = None"
    with consistentD(3) [OF c] f(3) show ?thesis by simp
  qed
qed

lemma panner_facts_getStereoPannerNode:
  "stereoPannerNode (snd (getStereoPannerNode pf v s)) = None \<Longrightarrow> stereoPannerNode s = None"
  "panner_available pf (snd (getStereoPannerNode pf v s)) = panner_available pf s"
  "\<not> context_available pf s \<Longrightarrow> stereoPannerNode s = None \<Longrightarrow>
     stereoPannerNode (snd (getStereoPannerNode pf v s)) = None"
  by (auto simp: getStereoPannerNode_panner panner_available_def split: option.splits if_splits)

lemma setPanValue_panner:
  "stereoPannerNode (snd (setPanValue pf v w s)) = None \<longleftrightarrow>
     stereoPannerNode (snd (getStereoPannerNode pf 0 s)) = None"
  by (simp add: setPanValue_alt split: option.splits)

lemma panner_facts_setPanValue:
  "stereoPannerNode (snd (setPanValue pf v w s)) = None \<Longrightarrow> stereoPannerNode s = None"
  "panner_available pf (snd (setPanValue pf v w s)) = panner_available pf s"
  "\<not> context_available pf s \<Longrightarrow> stereoPannerNode s = None \<Longrightarrow>
     stereoPannerNode (snd (setPanValue pf v w s)) = None"
proof -
  show "stereoPannerNode (snd (setPanValue pf v w s)) = None \<Longrightarrow> stereoPannerNode s = None"
    by (simp add: setPanValue_panner panner_facts_getStereoPannerNode(1))
  show "\<not> context_available pf s \<Longrightarrow> stereoPannerNode s = None \<Longrightarrow>
     stereoPannerNode (snd (setPanValue pf v w s)) = None"
    by (simp add: setPanValue_panner panner_facts_getStereoPannerNode(3))
  have "panner_available pf (snd (setPanValue pf v w s)) =
          panner_available pf (snd (getStereoPannerNode pf 0 s))"
    by (simp add: panner_available_def setPanValue_panner)
  then show "panner_available pf (snd (setPanValue pf v w s)) = panner_available pf s"
    by (simp add: panner_facts_getStereoPannerNode(2))
qed

lemma panner_facts_connectAudioSource:
  "stereoPannerNode (snd (connectAudioSource pf x s)) = None \<Longrightarrow> stereoPannerNode s = None"
  "context_available pf s \<Longrightarrow> \<not> panner_fails pf \<Longrightarrow> currentAudioMode s = ''stereopanner'' \<Longrightarrow>
     stereoPannerNode (snd (connectAudioSource pf x s)) \<noteq> None"
  "\<not> context_available pf s \<Longrightarrow>
     stereoPannerNode (snd (connectAudioSource pf x s)) = stereoPannerNode s"
proof -
  show "stereoPannerNode (snd (connectAudioSource pf x s)) = None \<Longrightarrow> stereoPannerNode s = None"
    using connectAudioSource_panner(1) [of s _ pf x] by (cases "stereoPannerNode s") auto
  show "\<not> context_available pf s \<Longrightarrow>
     stereoPannerNode (snd (connectAudioSource pf x s)) = stereoPannerNode s"
    by (simp add: connectAudioSource_alt)
  assume a: "context_available pf s" "\<not> panner_fails pf" "currentAudioMode s = ''stereopanner''"
  let ?t = "add_source x (snd (getAudioContext pf s))"
  have "stereoPannerNode (snd (connectAudioThroughStereoPanner pf x 0 ?t)) \<noteq> None"
  proof (cases "stereoPannerNode ?t")
    case None
    with a through_panner_more(4) [of ?t pf x 0] show ?thesis by simp
  next
    case (Some p)
    then show ?thesis by (simp add: through_panner_more(3))
  qed
  with a show "stereoPannerNode (snd (connectAudioSource pf x s)) \<noteq> None"
    by (simp add: connectAudioSource_alt split: sum.splits)
qed

lemma panner_facts_setAudioMode:
  "stereoPannerNode (snd (setAudioMode pf m s)) = None \<Longrightarrow> stereoPannerNode s = None"
  "context_available pf s \<Longrightarrow> \<not> panner_fails pf \<Longrightarrow> connectedSources s \<noteq> [] \<Longrightarrow>
     stereoPannerNode (snd (setAudioMode pf ''stereopanner'' s)) \<noteq> None"
  "\<not> context_available pf s \<Longrightarrow> stereoPannerNode (snd (setAudioMode pf m s)) = stereoPannerNode s"
proof -
  show "stereoPannerNode (snd (setAudioMode pf m s)) = None \<Longrightarrow> stereoPannerNode s = None"
  proof (cases "stereoPannerNode s")
    case None
    then show ?thesis by simp
  next
    case (Some p)
    let ?t = "snd (getAudioContext pf
                 ((disconnectAllSources pf (say Info (ModeChanging (currentAudioMode s) m) s))
                    \<lparr>currentAudioMode := m\<rparr>))"
    have t: "stereoPannerNode ?t = Some p" using Some by simp
    have "stereoPannerNode (fold (reconnect_source pf m) (connectedSources s) ?t) = Some p"
      using t by (rule reconnect_loop_panner)
    with t have "stereoPannerNode (snd (setAudioMode pf m s)) = Some p"
      by (simp add: setAudioMode_alt)
    moreover assume "stereoPannerNode (snd (setAudioMode pf m s)) = None"
    ultimately show ?thesis by simp
  qed
  show "\<not> context_available pf s \<Longrightarrow> stereoPannerNode (snd (setAudioMode pf m s)) = stereoPannerNode s"
    by (simp add: setAudioMode_alt)
  assume "context_available pf s" "\<not> panner_fails pf" "connectedSources s \<noteq> []"
  then show "stereoPannerNode (snd (setAudioMode pf ''stereopanner'' s)) \<noteq> None"
    by (simp add: setAudioMode_alt reconnect_loop_creates)
qed

lemma consistent_say: "consistent pf s \<Longrightarrow> consistent pf (say l msg s)"
  by (erule consistent_frame) simp_all

lemma consistent_getAudioContext: "consistent pf s \<Longrightarrow> consistent pf (snd (getAudioContext pf s))"
  by (erule consistent_frame) (simp_all add: context_available_def)

lemma consistent_getStereoPannerNode:
  "consistent pf s \<Longrightarrow> consistent pf (snd (getStereoPannerNode pf v s))"
  by (erule consistent_frame)
     (simp_all add: panner_facts_getStereoPannerNode, simp add: context_available_def)

lemma consistent_setPanValue:
  "consistent pf s \<Longrightarrow> consistent pf (snd (setPanValue pf v w s))"
  by (erule consistent_frame)
     (simp_all add: panner_facts_setPanValue, simp add: context_available_def)

lemma wire_edges_elsewhere:
  "y \<noteq> x \<Longrightarrow> wire_edges pf m a x (Source y) = {}"
  "wire_edges pf m a x Destination = {}"
  "m \<noteq> ''stereopanner'' \<Longrightarrow> wire_edges pf m a x Panner = {}"
  "\<not> a \<Longrightarrow> wire_edges pf ''stereopanner'' a x n = {}"
  by (simp_all add: wire_edges_def)

lemma rule_edges_connectAudioSource:
  "context_available pf s \<Longrightarrow>
   rule_edges pf (snd (connectAudioSource pf x s)) n =
     rule_edges pf s n \<union> wire_edges pf (currentAudioMode s) (panner_available pf s) x n"
  by (auto simp: rule_edges_def connectAudioSource_fields)

lemma consistent_connectAudioSource:
  assumes c: "consistent pf s"
  shows "consistent pf (snd (connectAudioSource pf x s))"
proof (cases "context_available pf s")
  case False
  from c show ?thesis
  proof (rule consistent_frame)
    show "outputs (snd (connectAudioSource pf x s)) = outputs s"
      using False by (simp add: fun_eq_iff connectAudioSource_fields(6))
    show "stereoPannerNode (snd (connectAudioSource pf x s)) = None \<Longrightarrow> stereoPannerNode s = None"
      by (rule panner_facts_connectAudioSource(1))
    show "\<not> audioContext (snd (connectAudioSource pf x s)) \<Longrightarrow>
       \<not> audioContext s \<and>
       (stereoPannerNode s = None \<longrightarrow> stereoPannerNode (snd (connectAudioSource pf x s)) = None)"
      using False by (simp add: panner_facts_connectAudioSource(3) context_available_def)
  qed (simp_all add: connectAudioSource_fields False)
next
  case True
  let ?s' = "snd (connectAudioSource pf x s)"
  let ?W = "wire_edges pf (currentAudioMode s) (panner_available pf s) x"
  have out: "\<And>n. outputs ?s' n = outputs s n \<union> ?W n"
    using True by (simp add: connectAudioSource_fields(6))
  have rule: "\<And>n. rule_edges pf ?s' n = rule_edges pf s n \<union> ?W n"
    using True by (rule rule_edges_connectAudioSource)
  have srcs: "set (connectedSources ?s') = insert x (set (connectedSources s))"
    using True by (auto simp: connectAudioSource_fields(3))
  show ?thesis
  proof (rule consistentI)
    assume "\<not> audioContext ?s'"
    with True show "connectedSources ?s' = [] \<and> stereoPannerNode ?s' = None"
      by (simp add: connectAudioSource_fields(2))
  next
    assume n: "stereoPannerNode ?s' = None"
    then have n0: "stereoPannerNode s = None" by (rule panner_facts_connectAudioSource(1))
    have "?W Panner = {}"
    proof (cases "currentAudioMode s = ''stereopanner''")
      case False
      then show ?thesis by (simp add: wire_edges_elsewhere(3))
    next
      case st: True
      with True n panner_facts_connectAudioSource(2) [of pf s x] have "panner_fails pf" by blast
      with n0 have "\<not> panner_available pf s" by (simp add: panner_available_def)
      with st show ?thesis by (simp add: wire_edges_elsewhere(4))
    qed
    with consistentD(3) [OF c n0] show "outputs ?s' Panner = {}" by (simp add: out)
  next
    fix y assume "y \<notin> set (connectedSources ?s')"
    with srcs have y: "y \<noteq> x" "y \<notin> set (connectedSources s)" by auto
    with consistentD(4) [OF c y(2)] show "outputs ?s' (Source y) = {}"
      by (simp add: out wire_edges_elsewhere(1))
  next
    fix n
    from consistentD(5) [OF c, of n] show "rule_edges pf ?s' n \<subseteq> outputs ?s' n"
      by (auto simp: out rule)
    assume "clearable pf ?s' n"
    with clearable_cases [of pf ?s' n x s] srcs
    have "clearable pf s n \<or> (n = Source x \<and> x \<notin> set (connectedSources s))
          \<or> (n = Panner \<and> stereoPannerNode s = None)" by simp
    then have "outputs s n \<subseteq> rule_edges pf s n"
    proof (elim disjE conjE)
      assume "clearable pf s n"
      then show ?thesis by (rule consistentD(6) [OF c])
    next
      assume "n = Source x" "x \<notin> set (connectedSources s)"
      with consistentD(4) [OF c, of x] show ?thesis by simp
    next
      assume "n = Panner" "stereoPannerNode s = None"
      with consistentD(3) [OF c] show ?thesis by simp
    qed
    then show "outputs ?s' n \<subseteq> rule_edges pf ?s' n" by (auto simp: out rule)
  qed
qed

lemma rule_edges_setAudioMode:
  "rule_edges pf (snd (setAudioMode pf m s)) n =
     (\<Union>x\<in>set (connectedSources s). wire_edges pf m (panner_available pf s) x n)"
  by (simp add: rule_edges_def setAudioMode_fields(1,2,4))

lemma not_clearable_before_context:
  assumes "consistent pf s" "\<not> context_available pf s"
  shows "\<not> clearable pf s n"
proof -
  from assms(2) have "\<not> audioContext s" by (simp add: context_available_def)
  with consistentD(1,2) [OF assms(1)] show ?thesis
    by (cases n) (simp_all add: clearable_def)
qed

lemma consistent_setAudioMode:
  assumes c: "consistent pf s"
  shows "consistent pf (snd (setAudioMode pf m s))"
proof -
  let ?s' = "snd (setAudioMode pf m s)"
  let ?R = "\<lambda>n. \<Union>x\<in>set (connectedSources s). wire_edges pf m (panner_available pf s) x n"
  have rule: "\<And>n. rule_edges pf ?s' n = ?R n" by (rule rule_edges_setAudioMode)
  show ?thesis
  proof (cases "context_available pf s")
    case False
    then have na: "\<not> audioContext s" by (simp add: context_available_def)
    have e: "connectedSources s = []" "stereoPannerNode s = None"
      using consistentD(1,2) [OF c] na by simp_all
    have out: "\<And>n. outputs ?s' n = outputs s n"
      using False not_clearable_before_context [OF c False]
      by (simp add: setAudioMode_fields(8))
    have p: "stereoPannerNode ?s' = None"
      using False e(2) by (simp add: panner_facts_setAudioMode(3))
    show ?thesis
    proof (rule consistentI)
      show "connectedSources ?s' = [] \<and> stereoPannerNode ?s' = None"
        using e(1) p by (simp add: setAudioMode_fields(2))
      show "outputs ?s' Panner = {}" using consistentD(3) [OF c e(2)] by (simp add: out)
      show "\<And>x. outputs ?s' (Source x) = {}"
        using consistentD(4) [OF c] e(1) by (simp add: out)
      show "\<And>n. rule_edges pf ?s' n \<subseteq> outputs ?s' n" using e(1) by (simp add: rule)
      show "\<And>n. clearable pf ?s' n \<Longrightarrow> outputs ?s' n \<subseteq> rule_edges pf ?s' n"
        using e(1) p by (simp add: clearable_def setAudioMode_fields(2) split: node.splits)
    qed
  next
    case True
    have out: "\<And>n. outputs ?s' n = (if clearable pf s n then {} else outputs s n) \<union> ?R n"
      using True by (simp add: setAudioMode_fields(8))
    show ?thesis
    proof (rule consistentI)
      assume "\<not> audioContext ?s'"
      with True show "connectedSources ?s' = [] \<and> stereoPannerNode ?s' = None"
        by (simp add: setAudioMode_fields(3))
    next
      assume n: "stereoPannerNode ?s' = None"
      then have n0: "stereoPannerNode s = None" by (rule panner_facts_setAudioMode(1))
      have "?R Panner = {}"
      proof (cases "m = ''stereopanner''")
        case False
        then show ?thesis by (simp add: wire_edges_elsewhere(3))
      next
        case st: True
        show ?thesis
        proof (cases "connectedSources s = []")
          case True
          then show ?thesis by simp
        next
          case False
          with \<open>context_available pf s\<close> n st panner_facts_setAudioMode(2) [of pf s]
          have "panner_fails pf" by blast
          with n0 have "\<not> panner_available pf s" by (simp add: panner_available_def)
          with st show ?thesis by (simp add: wire_edges_elsewhere(4))
        qed
      qed
      with consistentD(3) [OF c n0] show "outputs ?s' Panner = {}" by (simp add: out)
    next
      fix y assume "y \<notin> set (connectedSources ?s')"
      then have y: "y \<notin> set (connectedSources s)" by (simp add: setAudioMode_fields(2))
      then have "?R (Source y) = {}" by (auto simp: wire_edges_def)
      with consistentD(4) [OF c y] show "outputs ?s' (Source y) = {}" by (simp add: out)
    next
      fix n
      show "rule_edges pf ?s' n \<subseteq> outputs ?s' n" by (simp add: out rule)
      assume "clearable pf ?s' n"
      then have "clearable pf s n \<or> (n = Panner \<and> stereoPannerNode s = None)"
        by (auto simp: setAudioMode_fields(2) clearable_def split: node.splits)
      then have "(if clearable pf s n then {} else outputs s n) = {}"
        using consistentD(3) [OF c] by auto
      then show "outputs ?s' n \<subseteq> rule_edges pf ?s' n" by (simp add: out rule)
    qed
  qed
qed

lemma consistent_handleSoundOptionChange:
  assumes "consistent pf s"
  shows "consistent pf (snd (handleSoundOptionChange pf m s))"
proof -
  obtain l msg where "snd (handleSoundOptionChange pf m s) =
      say l msg (snd (setAudioMode pf m (say Info (SoundOptionChanging (currentAudioMode s) m) s)))"
    using handleSoundOptionChange_snd by blast
  with assms show ?thesis
    by (simp add: consistent_say consistent_setAudioMode)
qed

lemma consistent_exec:
  "consistent pf s \<Longrightarrow> engine_call c \<Longrightarrow> consistent pf (exec pf c s)"
  by (cases c)
     (simp_all add: consistent_getAudioContext consistent_getStereoPannerNode
        consistent_setPanValue consistent_setAudioMode consistent_connectAudioSource
        consistent_handleSoundOptionChange)

lemma consistent_run:
  "consistent pf s \<Longrightarrow> list_all engine_call cs \<Longrightarrow> consistent pf (run pf cs s)"
  unfolding run_def by (induction cs arbitrary: s) (simp_all add: consistent_exec)

lemma consistent_self_transition:
  assumes c: "consistent pf s"
  shows "outputs (snd (setAudioMode pf (currentAudioMode s) s)) = outputs s"
proof
  fix n
  show "outputs (snd (setAudioMode pf (currentAudioMode s) s)) n = outputs s n"
  proof (cases "context_available pf s")
    case False
    with not_clearable_before_context [OF c False] show ?thesis
      by (simp add: setAudioMode_fields(8))
  next
    case True
    then have "outputs (snd (setAudioMode pf (currentAudioMode s) s)) n =
        (if clearable pf s n then {} else outputs s n) \<union> rule_edges pf s n"
      by (simp add: setAudioMode_fields(8) rule_edges_def)
    with consistentD(5,6) [OF c, of n] show ?thesis by auto
  qed
qed



lemma panned_then_cut_fields:
  "audioContext panned_then_cut" "connectedSources panned_then_cut = [0]"
  "currentAudioMode panned_then_cut = ''stereopanner''"
  "stereoPannerNode panned_then_cut \<noteq> None"
  "outputs panned_then_cut Panner = {}"
proof -
  let ?a = "snd (setAudioMode ok_platform ''stereopanner'' init_engine)"
  let ?b = "snd (connectAudioSource ok_platform 0 ?a)"
  have a: "context_available ok_platform ?a" "currentAudioMode ?a = ''stereopanner''"
    "connectedSources ?a = []"
    by (simp_all add: setAudioMode_fields context_available_def ok_platform_def init_engine_def)
  have b: "stereoPannerNode ?b \<noteq> None"
    using a(1,2) by (intro panner_facts_connectAudioSource(2)) (simp_all add: ok_platform_def)
  have p: "panned_then_cut = disconnectStereoPanner ok_platform ?b"
    by (simp add: panned_then_cut_def run_def)
  show "audioContext panned_then_cut" using a(1) by (simp add: p connectAudioSource_fields)
  show "connectedSources panned_then_cut = [0]" using a(1,3) by (simp add: p connectAudioSource_fields)
  show "currentAudioMode panned_then_cut = ''stereopanner''"
    using a(2) by (simp add: p connectAudioSource_fields)
  show "stereoPannerNode panned_then_cut \<noteq> None" using b by (simp add: p)
  show "outputs panned_then_cut Panner = {}"
    using b by (simp add: p ok_platform_def)
qed


end
